theory Spec2Isabelle
  imports Complex_Main "HOL-Library.Log_Nat"
begin

section \<open>Python values, exceptions and the library interface\<close>

text \<open>
  The webhook builder and validator of \<^verbatim>\<open>task_4/implementation-examples.py\<close> work on
  JSON-shaped Python data. A value is \<^verbatim>\<open>None\<close>, a \<^verbatim>\<open>bool\<close>, an unbounded \<^verbatim>\<open>int\<close>, a
  \<^verbatim>\<open>float\<close>, a \<^verbatim>\<open>str\<close>, a \<^verbatim>\<open>list\<close> or a \<^verbatim>\<open>dict\<close> with string keys.

  \<^item> A \<^verbatim>\<open>float\<close> is represented by its exact value, a rational number (a finite binary64
    value is a dyadic rational); NaN and the infinities are outside the model.
  \<^item> A \<^verbatim>\<open>str\<close> is a list of characters; the 256 characters of HOL stand for the code
    points U+0000 to U+00FF.
  \<^item> A \<^verbatim>\<open>dict\<close> is the list of its items in insertion order, which is the order Python
    iterates and serialises it in. A Python dict never holds a key twice, so the lists
    that stand for dicts have distinct keys.
\<close>

datatype pyval =
    PNone
  | PBool bool
  | PInt int
  | PFloat rat
  | PStr string
  | PList "pyval list"
  | PDict "(string \<times> pyval) list"

type_synonym pydict = "(string \<times> pyval) list"

datatype py_error = KeyError | TypeError | AttributeError | ValueError

text \<open>
  A \<^verbatim>\<open>datetime\<close> as far as the validator looks at it: a naive one is a wall-clock reading,
  an aware one an instant on the UTC time line; both in microseconds since the epoch.
\<close>

datatype datetime = Naive int | Aware int

text \<open>
  The functions of the Python standard library that the code calls and whose results
  the model does not compute: the HMAC-SHA256 digest of a message under a key (both
  byte strings), \<^verbatim>\<open>float.__repr__\<close> as \<^verbatim>\<open>json.dumps\<close> writes a float, \<^verbatim>\<open>int(s)\<close> on a
  string (\<open>None\<close> is \<^verbatim>\<open>ValueError\<close>), \<^verbatim>\<open>datetime.isoformat\<close> of a naive datetime and
  \<^verbatim>\<open>datetime.fromisoformat\<close> (\<open>None\<close> is \<^verbatim>\<open>ValueError\<close>).
\<close>

record stdlib =
  hmac_sha256 :: "string \<Rightarrow> string \<Rightarrow> string"
  float_repr :: "rat \<Rightarrow> string"
  int_of_str :: "string \<Rightarrow> int option"
  isoformat :: "int \<Rightarrow> string"
  fromisoformat :: "string \<Rightarrow> datetime option"

subsection \<open>Dictionaries\<close>

text \<open>\<^verbatim>\<open>k in d\<close>, \<^verbatim>\<open>d.get(k)\<close>, \<^verbatim>\<open>d[k] = v\<close> (an existing key keeps its place, a new one
  goes last) and \<^verbatim>\<open>d.pop(k, None)\<close>.\<close>

definition dict_get :: "pydict \<Rightarrow> string \<Rightarrow> pyval option" where
  "dict_get d k = map_of d k"

definition dict_contains :: "string \<Rightarrow> pydict \<Rightarrow> bool" where
  "dict_contains k d = (dict_get d k \<noteq> None)"

fun dict_set :: "pydict \<Rightarrow> string \<Rightarrow> pyval \<Rightarrow> pydict" where
  "dict_set [] k v = [(k, v)]"
| "dict_set ((k', v') # d) k v =
     (if k' = k then (k', v) # d else (k', v') # dict_set d k v)"

definition dict_pop :: "string \<Rightarrow> pydict \<Rightarrow> pydict" where
  "dict_pop k d = filter (\<lambda>kv. fst kv \<noteq> k) d"

subsection \<open>Strings\<close>

text \<open>\<^verbatim>\<open>s.replace(old, new)\<close> for a non-empty \<open>old\<close>: every non-overlapping occurrence,
  from the left. The counter is the number of characters of a matched occurrence still to
  be skipped.\<close>

fun replace_from :: "nat \<Rightarrow> string \<Rightarrow> string \<Rightarrow> string \<Rightarrow> string" where
  "replace_from k old new [] = []"
| "replace_from (Suc k) old new (c # cs) = replace_from k old new cs"
| "replace_from 0 old new (c # cs) =
     (if take (length old) (c # cs) = old
      then new @ replace_from (length old - 1) old new cs
      else c # replace_from 0 old new cs)"

definition py_replace :: "string \<Rightarrow> string \<Rightarrow> string \<Rightarrow> string" where
  "py_replace old new s = replace_from 0 old new s"

text \<open>\<^verbatim>\<open>str(i)\<close> of an int: the decimal digits, after a minus sign for a negative one.\<close>

function digits :: "int \<Rightarrow> string" where
  "digits n =
     (if n < 10 then [char_of (48 + n)]
      else digits (n div 10) @ [char_of (48 + n mod 10)])"
  by pat_completeness auto
termination
  by (relation "measure nat") auto

declare digits.simps [simp del]

definition int_str :: "int \<Rightarrow> string" where
  "int_str i = (if i < 0 then CHR ''-'' # digits (- i) else digits i)"

text \<open>\<^verbatim>\<open>sep.join(xs)\<close>.\<close>

fun join :: "string \<Rightarrow> string list \<Rightarrow> string" where
  "join sep [] = []"
| "join sep [x] = x"
| "join sep (x # y # ys) = x @ sep @ join sep (y # ys)"

definition is_ascii :: "string \<Rightarrow> bool" where
  "is_ascii s = list_all (\<lambda>c. (of_char c :: int) < 128) s"

text \<open>\<^verbatim>\<open>s.encode('utf-8')\<close> on code points below U+0100.\<close>

definition utf8_char :: "char \<Rightarrow> string" where
  "utf8_char c =
     (let n = (of_char c :: int)
      in if n < 128 then [c] else [char_of (192 + n div 64), char_of (128 + n mod 64)])"

definition utf8_encode :: "string \<Rightarrow> string" where
  "utf8_encode s = concat (map utf8_char s)"

subsection \<open>\<^verbatim>\<open>json.dumps(v, separators=(',', ':'))\<close>\<close>

text \<open>
  The defaults of \<^verbatim>\<open>json.dumps\<close> apply: \<^verbatim>\<open>ensure_ascii=True\<close> and
  \<^verbatim>\<open>sort_keys=False\<close>, so a dict is written in its insertion order.
\<close>

definition hex_digit :: "int \<Rightarrow> char" where
  "hex_digit n = (if n < 10 then char_of (48 + n) else char_of (87 + n))"

definition json_escape_char :: "char \<Rightarrow> string" where
  "json_escape_char c =
     (let n = (of_char c :: int)
      in if n = 34 then [CHR 0x5C, CHR 0x22]
         else if n = 92 then [CHR 0x5C, CHR 0x5C]
         else if n = 10 then [CHR 0x5C, CHR ''n'']
         else if n = 13 then [CHR 0x5C, CHR ''r'']
         else if n = 9 then [CHR 0x5C, CHR ''t'']
         else if n = 8 then [CHR 0x5C, CHR ''b'']
         else if n = 12 then [CHR 0x5C, CHR ''f'']
         else if 32 \<le> n \<and> n \<le> 126 then [c]
         else [CHR 0x5C, CHR ''u'', CHR ''0'', CHR ''0'', hex_digit (n div 16), hex_digit (n mod 16)])"

definition json_string :: "string \<Rightarrow> string" where
  "json_string s = [CHR 0x22] @ concat (map json_escape_char s) @ [CHR 0x22]"

fun json_dumps :: "stdlib \<Rightarrow> pyval \<Rightarrow> string"
  and json_elems :: "stdlib \<Rightarrow> pyval list \<Rightarrow> string list"
  and json_items :: "stdlib \<Rightarrow> pydict \<Rightarrow> string list" where
  "json_dumps L PNone = ''null''"
| "json_dumps L (PBool b) = (if b then ''true'' else ''false'')"
| "json_dumps L (PInt i) = int_str i"
| "json_dumps L (PFloat q) = float_repr L q"
| "json_dumps L (PStr s) = json_string s"
| "json_dumps L (PList xs) = ''['' @ join '','' (json_elems L xs) @ '']''"
| "json_dumps L (PDict d) = ''{'' @ join '','' (json_items L d) @ ''}''"
| "json_elems L [] = []"
| "json_elems L (x # xs) = json_dumps L x # json_elems L xs"
| "json_items L [] = []"
| "json_items L ((k, v) # d) = (json_string k @ '':'' @ json_dumps L v) # json_items L d"

subsection \<open>\<^verbatim>\<open>base64.b64encode\<close>\<close>

definition b64_char :: "int \<Rightarrow> char" where
  "b64_char i =
     (if i < 26 then char_of (65 + i)
      else if i < 52 then char_of (71 + i)
      else if i < 62 then char_of (i - 4)
      else if i = 62 then CHR ''+'' else CHR ''/'')"

fun b64encode :: "string \<Rightarrow> string" where
  "b64encode [] = []"
| "b64encode [a] =
     (let x = (of_char a :: int)
      in [b64_char (x div 4), b64_char (x mod 4 * 16), CHR ''='', CHR ''=''])"
| "b64encode [a, b] =
     (let x = (of_char a :: int); y = (of_char b :: int)
      in [b64_char (x div 4), b64_char (x mod 4 * 16 + y div 16),
          b64_char (y mod 16 * 4), CHR ''=''])"
| "b64encode (a # b # c # r) =
     (let x = (of_char a :: int); y = (of_char b :: int); z = (of_char c :: int)
      in [b64_char (x div 4), b64_char (x mod 4 * 16 + y div 16),
          b64_char (y mod 16 * 4 + z div 64), b64_char (z mod 64)] @ b64encode r)"

section \<open>Signing\<close>

record WebhookPayloadBuilder =
  secret_key :: string
  system_name :: string
  version :: string

text \<open>\<^verbatim>\<open>WebhookPayloadBuilder._generate_signature\<close>: the signature field is popped from
  a copy, the rest is serialised, and the digest is written as \<^verbatim>\<open>sha256=<base64>\<close>.\<close>

definition Builder_generate_signature :: "stdlib \<Rightarrow> WebhookPayloadBuilder \<Rightarrow> pydict \<Rightarrow> string" where
  "Builder_generate_signature L B payload =
     (let payload_copy = dict_pop ''signature'' payload;
          payload_bytes = utf8_encode (json_dumps L (PDict payload_copy));
          signature = hmac_sha256 L (utf8_encode (secret_key B)) payload_bytes
      in ''sha256='' @ b64encode signature)"

record WebhookValidator =
  validator_secret_key :: string
  processed_requests :: "pyval set"

text \<open>\<^verbatim>\<open>WebhookValidator._generate_signature\<close> serialises what it is given.\<close>

definition Validator_generate_signature :: "stdlib \<Rightarrow> string \<Rightarrow> pydict \<Rightarrow> string" where
  "Validator_generate_signature L key payload =
     (let payload_bytes = utf8_encode (json_dumps L (PDict payload));
          signature = hmac_sha256 L (utf8_encode key) payload_bytes
      in ''sha256='' @ b64encode signature)"

section \<open>Numbers\<close>

text \<open>
  Binary64 arithmetic on exact values. \<open>double_of_rat q\<close> is the binary64 value nearest
  to \<open>q\<close>, ties to even: the value a float literal denotes and the result of a correctly
  rounded operation (overflow to infinity is outside the model).
\<close>

definition pow2 :: "int \<Rightarrow> rat" where
  "pow2 k = (if 0 \<le> k then 2 ^ nat k else 1 / 2 ^ nat (- k))"

definition round_half_even :: "rat \<Rightarrow> int" where
  "round_half_even q =
     (let f = \<lfloor>q\<rfloor>; r = q - of_int f
      in if r < 1 / 2 then f else if 1 / 2 < r then f + 1 else if even f then f else f + 1)"

definition floor_log2 :: "rat \<Rightarrow> int" where
  "floor_log2 q =
     (case quotient_of q of (n, d) \<Rightarrow>
        let k = bitlen n - bitlen d in if pow2 k \<le> q then k else k - 1)"

definition double_of_rat :: "rat \<Rightarrow> rat" where
  "double_of_rat q =
     (if q = 0 then 0
      else let e = max (floor_log2 \<bar>q\<bar> - 52) (- 1074)
           in of_int (round_half_even (q / pow2 e)) * pow2 e)"

text \<open>\<^verbatim>\<open>round(x, 2)\<close> of a float: CPython rounds the exact value to two decimals, ties
  to even, and returns the nearest float.\<close>

definition float_round2 :: "rat \<Rightarrow> rat" where
  "float_round2 q = double_of_rat (of_int (round_half_even (q * 100)) / 100)"

text \<open>\<^verbatim>\<open>int(x)\<close> of a float truncates towards zero.\<close>

definition float_trunc :: "rat \<Rightarrow> int" where
  "float_trunc q = (if 0 \<le> q then \<lfloor>q\<rfloor> else \<lceil>q\<rceil>)"

text \<open>\<^verbatim>\<open>x >= 0.7\<close>: ints, bools and floats compare by value, anything else raises.\<close>

definition py_ge_0_7 :: "pyval \<Rightarrow> py_error + bool" where
  "py_ge_0_7 x =
     (case x of
        PInt i \<Rightarrow> Inr (double_of_rat (7 / 10) \<le> of_int i)
      | PBool b \<Rightarrow> Inr b
      | PFloat q \<Rightarrow> Inr (double_of_rat (7 / 10) \<le> q)
      | _ \<Rightarrow> Inl TypeError)"

text \<open>\<^verbatim>\<open>round(x, 2)\<close>: an int is returned as it is, a bool as an int.\<close>

definition py_round2 :: "pyval \<Rightarrow> py_error + pyval" where
  "py_round2 x =
     (case x of
        PInt i \<Rightarrow> Inr (PInt i)
      | PBool b \<Rightarrow> Inr (PInt (if b then 1 else 0))
      | PFloat q \<Rightarrow> Inr (PFloat (float_round2 q))
      | _ \<Rightarrow> Inl TypeError)"

text \<open>\<^verbatim>\<open>int(x)\<close>.\<close>

definition py_int :: "stdlib \<Rightarrow> pyval \<Rightarrow> py_error + int" where
  "py_int L x =
     (case x of
        PInt i \<Rightarrow> Inr i
      | PBool b \<Rightarrow> Inr (if b then 1 else 0)
      | PFloat q \<Rightarrow> Inr (float_trunc q)
      | PStr s \<Rightarrow> (case int_of_str L s of None \<Rightarrow> Inl ValueError | Some i \<Rightarrow> Inr i)
      | _ \<Rightarrow> Inl TypeError)"

text \<open>\<^verbatim>\<open>[int(x) for x in xs]\<close>: the first element that raises ends the comprehension.\<close>

fun int_all :: "stdlib \<Rightarrow> pyval list \<Rightarrow> py_error + pyval list" where
  "int_all L [] = Inr []"
| "int_all L (x # xs) =
     (case py_int L x of
        Inl e \<Rightarrow> Inl e
      | Inr i \<Rightarrow> (case int_all L xs of Inl e \<Rightarrow> Inl e | Inr r \<Rightarrow> Inr (PInt i # r)))"

section \<open>Operators on values of any type\<close>

text \<open>\<^verbatim>\<open>sub in s\<close> on strings.\<close>

fun is_substring :: "string \<Rightarrow> string \<Rightarrow> bool" where
  "is_substring sub [] = (sub = [])"
| "is_substring sub (c # cs) = (take (length sub) (c # cs) = sub \<or> is_substring sub cs)"

text \<open>\<^verbatim>\<open>k in x\<close> for a string \<open>k\<close>: a key test on a dict, a membership test on a list,
  a substring test on a string, \<^verbatim>\<open>TypeError\<close> on anything else.\<close>

definition py_contains :: "string \<Rightarrow> pyval \<Rightarrow> py_error + bool" where
  "py_contains k x =
     (case x of
        PDict d \<Rightarrow> Inr (dict_contains k d)
      | PList xs \<Rightarrow> Inr (PStr k \<in> set xs)
      | PStr s \<Rightarrow> Inr (is_substring k s)
      | _ \<Rightarrow> Inl TypeError)"

text \<open>\<^verbatim>\<open>x[k]\<close> for a string \<open>k\<close>: only a dict can be subscripted by a string.\<close>

definition py_getitem :: "pyval \<Rightarrow> string \<Rightarrow> py_error + pyval" where
  "py_getitem x k =
     (case x of
        PDict d \<Rightarrow> (case dict_get d k of None \<Rightarrow> Inl KeyError | Some v \<Rightarrow> Inr v)
      | _ \<Rightarrow> Inl TypeError)"

text \<open>\<^verbatim>\<open>x.get(k, default)\<close>: only a dict has the method.\<close>

definition py_get :: "pyval \<Rightarrow> string \<Rightarrow> pyval \<Rightarrow> py_error + pyval" where
  "py_get x k dflt =
     (case x of
        PDict d \<Rightarrow> Inr (case dict_get d k of None \<Rightarrow> dflt | Some v \<Rightarrow> v)
      | _ \<Rightarrow> Inl AttributeError)"

text \<open>What \<^verbatim>\<open>for obj in x\<close> iterates over.\<close>

definition py_iter :: "pyval \<Rightarrow> py_error + pyval list" where
  "py_iter x =
     (case x of
        PList xs \<Rightarrow> Inr xs
      | PDict d \<Rightarrow> Inr (map (\<lambda>kv. PStr (fst kv)) d)
      | PStr s \<Rightarrow> Inr (map (\<lambda>c. PStr [c]) s)
      | _ \<Rightarrow> Inl TypeError)"

text \<open>The truth value of \<^verbatim>\<open>if x:\<close>.\<close>

definition truthy :: "pyval \<Rightarrow> bool" where
  "truthy x =
     (case x of
        PNone \<Rightarrow> False
      | PBool b \<Rightarrow> b
      | PInt i \<Rightarrow> i \<noteq> 0
      | PFloat q \<Rightarrow> q \<noteq> 0
      | PStr s \<Rightarrow> s \<noteq> []
      | PList xs \<Rightarrow> xs \<noteq> []
      | PDict d \<Rightarrow> d \<noteq> [])"

section \<open>The payload builder\<close>

text \<open>\<^verbatim>\<open>d.get(k, 0)\<close> on a dict.\<close>

definition get_or_0 :: "pydict \<Rightarrow> string \<Rightarrow> pyval" where
  "get_or_0 d k = (case dict_get d k of None \<Rightarrow> PInt 0 | Some v \<Rightarrow> v)"

text \<open>The body of the loop of \<^verbatim>\<open>_compress_detection_details\<close> on one element:
  \<open>Inr None\<close> when the element is skipped, \<open>Inr (Some c)\<close> when \<open>c\<close> is appended.\<close>

definition compress_object :: "stdlib \<Rightarrow> pyval \<Rightarrow> py_error + pyval option" where
  "compress_object L obj =
     (case py_get obj ''confidence'' (PInt 0) of
        Inl e \<Rightarrow> Inl e
      | Inr conf \<Rightarrow>
     (case py_ge_0_7 conf of
        Inl e \<Rightarrow> Inl e
      | Inr False \<Rightarrow> Inr None
      | Inr True \<Rightarrow>
     (case py_getitem obj ''type'' of
        Inl e \<Rightarrow> Inl e
      | Inr t \<Rightarrow>
     (case py_getitem obj ''confidence'' of
        Inl e \<Rightarrow> Inl e
      | Inr c \<Rightarrow>
     (case py_round2 c of
        Inl e \<Rightarrow> Inl e
      | Inr r \<Rightarrow>
     (let compressed_obj = [(''type'', t), (''conf'', r)]
      in case py_contains ''bounding_box'' obj of
           Inl e \<Rightarrow> Inl e
         | Inr False \<Rightarrow> Inr (Some (PDict compressed_obj))
         | Inr True \<Rightarrow>
        (case py_getitem obj ''bounding_box'' of
           Inl e \<Rightarrow> Inl e
         | Inr (PDict bbox) \<Rightarrow>
             (case int_all L [get_or_0 bbox ''x'', get_or_0 bbox ''y'',
                              get_or_0 bbox ''width'', get_or_0 bbox ''height''] of
                Inl e \<Rightarrow> Inl e
              | Inr b \<Rightarrow> Inr (Some (PDict (dict_set compressed_obj ''bbox'' (PList b)))))
         | Inr (PList bbox) \<Rightarrow>
             (case int_all L bbox of
                Inl e \<Rightarrow> Inl e
              | Inr b \<Rightarrow> Inr (Some (PDict (dict_set compressed_obj ''bbox'' (PList b)))))
         | Inr _ \<Rightarrow> Inr (Some (PDict compressed_obj)))))))))"

text \<open>The loop itself: the compressed objects in order, or the first exception.\<close>

fun compress_objects :: "stdlib \<Rightarrow> pyval list \<Rightarrow> py_error + pyval list" where
  "compress_objects L [] = Inr []"
| "compress_objects L (obj # objs) =
     (case compress_object L obj of
        Inl e \<Rightarrow> Inl e
      | Inr r \<Rightarrow>
          (case compress_objects L objs of
             Inl e \<Rightarrow> Inl e
           | Inr rs \<Rightarrow> Inr (case r of None \<Rightarrow> rs | Some c \<Rightarrow> c # rs)))"

text \<open>\<^verbatim>\<open>_compress_detection_details\<close>.\<close>

definition compress_detection_details :: "stdlib \<Rightarrow> pyval \<Rightarrow> py_error + pydict" where
  "compress_detection_details L details =
     (case py_contains ''objects'' details of
        Inl e \<Rightarrow> Inl e
      | Inr False \<Rightarrow> Inr []
      | Inr True \<Rightarrow>
     (case py_getitem details ''objects'' of
        Inl e \<Rightarrow> Inl e
      | Inr objs \<Rightarrow>
     (case py_iter objs of
        Inl e \<Rightarrow> Inl e
      | Inr xs \<Rightarrow>
     (case compress_objects L xs of
        Inl e \<Rightarrow> Inl e
      | Inr cs \<Rightarrow> Inr [(''objects'', PList cs)]))))"

definition essential_fields :: "string list" where
  "essential_fields = [''incident_id'', ''frame_id'', ''confidence'', ''session_id'']"

definition excluded_fields :: "string list" where
  "excluded_fields = [''debug_info'', ''raw_frame_data'', ''processing_metadata'']"

text \<open>\<^verbatim>\<open>_optimize_data_for_profile\<close>.\<close>

definition optimize_data_for_profile :: "stdlib \<Rightarrow> pydict \<Rightarrow> string \<Rightarrow> py_error + pydict" where
  "optimize_data_for_profile L data profile =
     (if profile = ''minimal''
      then Inr (filter (\<lambda>kv. fst kv \<in> set essential_fields) data)
      else if profile = ''standard''
      then (let optimized = filter (\<lambda>kv. fst kv \<notin> set excluded_fields) data
            in case dict_get optimized ''detection_details'' of
                 None \<Rightarrow> Inr optimized
               | Some details \<Rightarrow>
                   (case compress_detection_details L details of
                      Inl e \<Rightarrow> Inl e
                    | Inr c \<Rightarrow> Inr (dict_set optimized ''detection_details'' (PDict c))))
      else Inr data)"

text \<open>What \<^verbatim>\<open>create_payload\<close> reads from its environment: the clock
  (\<^verbatim>\<open>datetime.utcnow()\<close>, microseconds since the epoch), the first random UUID (its
  \<^verbatim>\<open>hex\<close>), \<^verbatim>\<open>time.time()\<close> and the second random UUID (its \<^verbatim>\<open>str\<close>).\<close>

record builder_env =
  utcnow :: int
  instance_uuid_hex :: string
  time_time :: rat
  request_uuid_str :: string

text \<open>\<^verbatim>\<open>_generate_request_id\<close>.\<close>

definition generate_request_id :: "builder_env \<Rightarrow> string" where
  "generate_request_id env =
     (let timestamp = float_trunc (double_of_rat (time_time env * 1000));
          unique_id = take 8 (request_uuid_str env)
      in ''req_'' @ int_str timestamp @ ''_'' @ unique_id)"

text \<open>\<^verbatim>\<open>create_payload\<close>.\<close>

definition create_payload ::
  "stdlib \<Rightarrow> WebhookPayloadBuilder \<Rightarrow> builder_env \<Rightarrow> string \<Rightarrow> pydict \<Rightarrow> string \<Rightarrow> string
     \<Rightarrow> py_error + pydict" where
  "create_payload L B env event_type data profile priority =
     (case optimize_data_for_profile L data profile of
        Inl e \<Rightarrow> Inl e
      | Inr optimized \<Rightarrow>
          (let base_payload =
                 [(''event'', PStr event_type),
                  (''timestamp'', PStr (isoformat L (utcnow env) @ ''Z'')),
                  (''source'', PDict
                     [(''system'', PStr (system_name B)),
                      (''version'', PStr (version B)),
                      (''instance_id'',
                         PStr (system_name B @ ''-'' @ take 8 (instance_uuid_hex env)))]),
                  (''data'', PDict optimized),
                  (''meta'', PDict
                     [(''request_id'', PStr (generate_request_id env)),
                      (''priority'', PStr priority),
                      (''schema_version'', PStr ''1.0.0'')])]
           in Inr (dict_set base_payload ''signature''
                     (PStr (Builder_generate_signature L B base_payload)))))"

section \<open>The payload validator\<close>

text \<open>What \<^verbatim>\<open>validate_payload\<close> reads from its environment: \<^verbatim>\<open>datetime.now(tz)\<close>, which is
  the current instant for a time zone and the local wall-clock reading for \<^verbatim>\<open>None\<close>; both
  in microseconds since the epoch.\<close>

record clock =
  utc_now :: int
  local_now :: int

record validation_result =
  valid :: bool
  errors :: "string list"

definition required_fields :: "string list" where
  "required_fields = [''event'', ''timestamp'', ''source'', ''data'', ''meta'']"

text \<open>The loop over the required fields.\<close>

fun check_required_fields :: "pyval \<Rightarrow> string list \<Rightarrow> py_error + string list" where
  "check_required_fields payload [] = Inr []"
| "check_required_fields payload (field # rest) =
     (case py_contains field payload of
        Inl e \<Rightarrow> Inl e
      | Inr present \<Rightarrow>
          (case check_required_fields payload rest of
             Inl e \<Rightarrow> Inl e
           | Inr errs \<Rightarrow>
               Inr (if present then errs else (''Missing required field: '' @ field) # errs)))"

text \<open>\<^verbatim>\<open>(datetime.now(timestamp.tzinfo) - timestamp).total_seconds()\<close>. Python returns the
  float nearest to this quotient; the comparison with 300 is the same on both, since an
  age is a whole number of microseconds.\<close>

definition age_seconds :: "clock \<Rightarrow> datetime \<Rightarrow> rat" where
  "age_seconds clk timestamp =
     (case timestamp of
        Naive t \<Rightarrow> of_int (local_now clk - t) / 1000000
      | Aware t \<Rightarrow> of_int (utc_now clk - t) / 1000000)"

text \<open>The timestamp block. Only \<^verbatim>\<open>ValueError\<close> is caught; a timestamp that is not a
  string has no \<^verbatim>\<open>replace\<close>.\<close>

definition check_timestamp :: "stdlib \<Rightarrow> clock \<Rightarrow> pyval \<Rightarrow> py_error + string list" where
  "check_timestamp L clk payload =
     (case py_contains ''timestamp'' payload of
        Inl e \<Rightarrow> Inl e
      | Inr False \<Rightarrow> Inr []
      | Inr True \<Rightarrow>
     (case py_getitem payload ''timestamp'' of
        Inl e \<Rightarrow> Inl e
      | Inr (PStr s) \<Rightarrow>
          (case fromisoformat L (py_replace ''Z'' ''+00:00'' s) of
             None \<Rightarrow> Inr [''Invalid timestamp format'']
           | Some timestamp \<Rightarrow>
               Inr (if 300 < age_seconds clk timestamp then [''Timestamp too old''] else []))
      | Inr _ \<Rightarrow> Inl AttributeError))"

text \<open>Membership in a Python set is up to \<^verbatim>\<open>==\<close>, which identifies an int, a bool and
  a float of the same value; \<open>eq_key\<close> picks one representative. Lists and dicts are not
  hashable.\<close>

definition eq_key :: "pyval \<Rightarrow> pyval" where
  "eq_key x =
     (case x of
        PBool b \<Rightarrow> PInt (if b then 1 else 0)
      | PFloat q \<Rightarrow> (if of_int \<lfloor>q\<rfloor> = q then PInt \<lfloor>q\<rfloor> else PFloat q)
      | _ \<Rightarrow> x)"

definition set_contains :: "pyval \<Rightarrow> pyval set \<Rightarrow> bool" where
  "set_contains x S = (eq_key x \<in> eq_key ` S)"

definition hashable :: "pyval \<Rightarrow> bool" where
  "hashable x = (case x of PList xs \<Rightarrow> False | PDict d \<Rightarrow> False | _ \<Rightarrow> True)"

text \<open>The replay block: the errors it appends and the replay set it leaves.\<close>

definition check_replay :: "pyval \<Rightarrow> pyval set \<Rightarrow> (py_error + string list) \<times> pyval set" where
  "check_replay payload processed =
     (case py_get payload ''meta'' (PDict []) of
        Inl e \<Rightarrow> (Inl e, processed)
      | Inr meta \<Rightarrow>
     (case py_get meta ''request_id'' PNone of
        Inl e \<Rightarrow> (Inl e, processed)
      | Inr request_id \<Rightarrow>
          (if truthy request_id
           then (if hashable request_id
                 then (if set_contains request_id processed
                       then (Inr [''Duplicate request ID (replay attack)''], processed)
                       else (Inr [], insert request_id processed))
                 else (Inl TypeError, processed))
           else (Inr [], processed))))"

text \<open>\<^verbatim>\<open>hmac.compare_digest\<close> on two strings: equality, and \<^verbatim>\<open>TypeError\<close> when one of
  them has a non-ASCII character.\<close>

definition compare_digest :: "string \<Rightarrow> string \<Rightarrow> py_error + bool" where
  "compare_digest a b = (if is_ascii a \<and> is_ascii b then Inr (a = b) else Inl TypeError)"

text \<open>\<^verbatim>\<open>_verify_signature\<close>. A list has \<^verbatim>\<open>copy\<close> but no two-argument \<^verbatim>\<open>pop\<close>; the other
  values have no \<^verbatim>\<open>copy\<close>.\<close>

definition verify_signature :: "stdlib \<Rightarrow> string \<Rightarrow> pyval \<Rightarrow> string \<Rightarrow> py_error + bool" where
  "verify_signature L key payload received_signature =
     (case payload of
        PDict d \<Rightarrow>
          (let payload_copy = dict_pop ''signature'' d;
               expected_signature = Validator_generate_signature L key payload_copy;
               received_sig = py_replace ''sha256='' [] received_signature;
               expected_sig = py_replace ''sha256='' [] expected_signature
           in compare_digest expected_sig received_sig)
      | PList xs \<Rightarrow> Inl TypeError
      | _ \<Rightarrow> Inl AttributeError)"

text \<open>\<^verbatim>\<open>validate_payload\<close>: the verdict or the exception raised, and the validator with
  the replay set as the call leaves it.\<close>

definition validate_payload ::
  "stdlib \<Rightarrow> WebhookValidator \<Rightarrow> clock \<Rightarrow> pyval \<Rightarrow> string
     \<Rightarrow> (py_error + validation_result) \<times> WebhookValidator" where
  "validate_payload L V clk payload received_signature =
     (case check_required_fields payload required_fields of
        Inl e \<Rightarrow> (Inl e, V)
      | Inr errs1 \<Rightarrow>
     (case check_timestamp L clk payload of
        Inl e \<Rightarrow> (Inl e, V)
      | Inr errs2 \<Rightarrow>
     (case check_replay payload (processed_requests V) of
        (Inl e, processed) \<Rightarrow> (Inl e, V\<lparr>processed_requests := processed\<rparr>)
      | (Inr errs3, processed) \<Rightarrow>
     (case verify_signature L (validator_secret_key V) payload received_signature of
        Inl e \<Rightarrow> (Inl e, V\<lparr>processed_requests := processed\<rparr>)
      | Inr ok \<Rightarrow>
          (let errs = errs1 @ errs2 @ errs3 @ (if ok then [] else [''Invalid signature''])
           in (Inr \<lparr>valid = (length errs = 0), errors = errs\<rparr>,
               V\<lparr>processed_requests := processed\<rparr>))))))"

section \<open>A library instance for the examples\<close>

text \<open>
  The examples below need values for the library functions. The clock entries are the
  values of the real functions at the instant 2024-01-01 00:00:00 UTC; the float entry is
  \<^verbatim>\<open>repr(0.94)\<close>. The digest is a stand-in (key followed by message): no example depends
  on what a digest is, only on the same one being computed twice.
\<close>

definition example_stdlib :: stdlib where
  "example_stdlib =
     \<lparr>hmac_sha256 = (\<lambda>key msg. key @ msg),
      float_repr = (\<lambda>q. if q = double_of_rat (94 / 100) then ''0.94'' else ''0.0''),
      int_of_str = (\<lambda>s. None),
      isoformat = (\<lambda>t. if t = 1704067200000000 then ''2024-01-01T00:00:00'' else []),
      fromisoformat = (\<lambda>s. if s = ''2024-01-01T00:00:00+00:00''
                            then Some (Aware 1704067200000000) else None)\<rparr>"

definition example_builder :: WebhookPayloadBuilder where
  "example_builder =
     \<lparr>secret_key = ''your-webhook-secret-key-here'',
      system_name = ''frame-analyzer'',
      version = ''1.0.0''\<rparr>"

definition example_env :: builder_env where
  "example_env =
     \<lparr>utcnow = 1704067200000000,
      instance_uuid_hex = ''0123456789abcdef0123456789abcdef'',
      time_time = 1704067200,
      request_uuid_str = ''89abcdef-0123-4567-89ab-cdef01234567''\<rparr>"

definition example_validator :: WebhookValidator where
  "example_validator =
     \<lparr>validator_secret_key = ''your-webhook-secret-key-here'', processed_requests = {}\<rparr>"

text \<open>The incident of the script at the end of the source file, with three more
  detections (one of confidence 0.5, one of confidence 0.875 whose bounding box is a
  sequence, one of confidence 0.7 without a bounding box) and a second key in
  \<^verbatim>\<open>detection_details\<close>.\<close>

definition person_box :: pydict where
  "person_box =
     [(''x'', PFloat (double_of_rat (1205 / 10))),
      (''y'', PFloat (double_of_rat (452 / 10))),
      (''width'', PFloat (double_of_rat (1807 / 10))),
      (''height'', PFloat (double_of_rat (1559 / 10)))]"

definition person_object :: pydict where
  "person_object =
     [(''type'', PStr ''person''),
      (''confidence'', PFloat (double_of_rat (94 / 100))),
      (''bounding_box'', PDict person_box),
      (''attributes'', PDict
         [(''age_estimate'', PStr ''adult''), (''clothing_color'', PStr ''blue'')])]"

definition car_object :: pydict where
  "car_object =
     [(''type'', PStr ''car''),
      (''confidence'', PFloat (double_of_rat (5 / 10))),
      (''bounding_box'', PList [PInt 1, PInt 2, PInt 3, PInt 4])]"

definition bag_box :: "pyval list" where
  "bag_box =
     [PFloat (double_of_rat (- 37 / 10)), PFloat (double_of_rat (201 / 10)),
      PInt 30, PFloat (double_of_rat (405 / 10))]"

definition bag_object :: pydict where
  "bag_object =
     [(''type'', PStr ''bag''),
      (''confidence'', PFloat (double_of_rat (875 / 1000))),
      (''bounding_box'', PList bag_box)]"

definition cone_object :: pydict where
  "cone_object =
     [(''type'', PStr ''cone''),
      (''confidence'', PFloat (double_of_rat (7 / 10)))]"

definition incident_objects :: "pyval list" where
  "incident_objects =
     [PDict person_object, PDict car_object, PDict bag_object, PDict cone_object]"

definition incident_details :: pydict where
  "incident_details =
     [(''objects'', PList incident_objects), (''frame_quality'', PStr ''good'')]"

definition incident_data :: pydict where
  "incident_data =
     [(''incident_id'', PStr ''inc_123''),
      (''frame_id'', PStr ''frame_456''),
      (''confidence'', PFloat (double_of_rat (94 / 100))),
      (''detection_details'', PDict incident_details),
      (''debug_info'', PDict
         [(''processing_time'', PInt 156), (''model_version'', PStr ''v2.1'')])]"

text \<open>A detection without a type, and data whose \<^verbatim>\<open>detection_details\<close> has no objects.\<close>

definition untyped_data :: pydict where
  "untyped_data =
     [(''detection_details'', PDict
         [(''objects'', PList [PDict [(''confidence'', PFloat (double_of_rat (94 / 100)))]])])]"

definition plain_details_data :: pydict where
  "plain_details_data =
     [(''frame_id'', PStr ''frame_456''),
      (''detection_details'', PDict [(''frame_quality'', PStr ''good'')])]"

text \<open>A detection whose bounding box is a sequence of three numbers.\<close>

definition short_box_data :: pydict where
  "short_box_data =
     [(''detection_details'', PDict
         [(''objects'', PList
            [PDict
               [(''type'', PStr ''person''),
                (''confidence'', PFloat (double_of_rat (9 / 10))),
                (''bounding_box'', PList
                   [PFloat (double_of_rat (15 / 10)), PFloat (double_of_rat (25 / 10)),
                    PFloat (double_of_rat (35 / 10))])]])])]"

text \<open>The envelope that \<^verbatim>\<open>create_payload\<close> returns for the incident under the minimal
  profile, and a clock that reads 299 seconds after its timestamp (the local wall clock
  one hour ahead of UTC).\<close>

definition example_envelope :: pydict where
  "example_envelope =
     [(''event'', PStr ''incident_detected''),
      (''timestamp'', PStr ''2024-01-01T00:00:00Z''),
      (''source'', PDict
         [(''system'', PStr ''frame-analyzer''),
          (''version'', PStr ''1.0.0''),
          (''instance_id'', PStr ''frame-analyzer-01234567'')]),
      (''data'', PDict
         [(''incident_id'', PStr ''inc_123''),
          (''frame_id'', PStr ''frame_456''),
          (''confidence'', PFloat (double_of_rat (94 / 100)))]),
      (''meta'', PDict
         [(''request_id'', PStr ''req_1704067200000_89abcdef''),
          (''priority'', PStr ''medium''),
          (''schema_version'', PStr ''1.0.0'')]),
      (''signature'', PStr
         ''sha256=eW91ci13ZWJob29rLXNlY3JldC1rZXktaGVyZXsiZXZlbnQiOiJpbmNpZGVudF9kZXRlY3RlZCIsInRpbWVzdGFtcCI6IjIwMjQtMDEtMDFUMDA6MDA6MDBaIiwic291cmNlIjp7InN5c3RlbSI6ImZyYW1lLWFuYWx5emVyIiwidmVyc2lvbiI6IjEuMC4wIiwiaW5zdGFuY2VfaWQiOiJmcmFtZS1hbmFseXplci0wMTIzNDU2NyJ9LCJkYXRhIjp7ImluY2lkZW50X2lkIjoiaW5jXzEyMyIsImZyYW1lX2lkIjoiZnJhbWVfNDU2IiwiY29uZmlkZW5jZSI6MC45NH0sIm1ldGEiOnsicmVxdWVzdF9pZCI6InJlcV8xNzA0MDY3MjAwMDAwXzg5YWJjZGVmIiwicHJpb3JpdHkiOiJtZWRpdW0iLCJzY2hlbWFfdmVyc2lvbiI6IjEuMC4wIn19'')]"

definition example_signature :: string where
  "example_signature =
     ''sha256=eW91ci13ZWJob29rLXNlY3JldC1rZXktaGVyZXsiZXZlbnQiOiJpbmNpZGVudF9kZXRlY3RlZCIsInRpbWVzdGFtcCI6IjIwMjQtMDEtMDFUMDA6MDA6MDBaIiwic291cmNlIjp7InN5c3RlbSI6ImZyYW1lLWFuYWx5emVyIiwidmVyc2lvbiI6IjEuMC4wIiwiaW5zdGFuY2VfaWQiOiJmcmFtZS1hbmFseXplci0wMTIzNDU2NyJ9LCJkYXRhIjp7ImluY2lkZW50X2lkIjoiaW5jXzEyMyIsImZyYW1lX2lkIjoiZnJhbWVfNDU2IiwiY29uZmlkZW5jZSI6MC45NH0sIm1ldGEiOnsicmVxdWVzdF9pZCI6InJlcV8xNzA0MDY3MjAwMDAwXzg5YWJjZGVmIiwicHJpb3JpdHkiOiJtZWRpdW0iLCJzY2hlbWFfdmVyc2lvbiI6IjEuMC4wIn19''"

definition example_clock :: clock where
  "example_clock = \<lparr>utc_now = 1704067499000000, local_now = 1704071099000000\<rparr>"

text \<open>An envelope without its \<^verbatim>\<open>data\<close> field, one without a request id, and clocks that
  read 301 seconds after and 60 seconds before the timestamp of the examples.\<close>

definition partial_envelope :: pydict where
  "partial_envelope =
     [(''event'', PStr ''incident_detected''),
      (''timestamp'', PStr ''2024-01-01T00:00:00Z''),
      (''source'', PDict [(''system'', PStr ''frame-analyzer'')]),
      (''meta'', PDict [(''request_id'', PStr ''req_1''), (''priority'', PStr ''medium'')])]"

definition anonymous_envelope :: pydict where
  "anonymous_envelope =
     [(''event'', PStr ''incident_detected''),
      (''timestamp'', PStr ''2024-01-01T00:00:00Z''),
      (''source'', PDict [(''system'', PStr ''frame-analyzer'')]),
      (''data'', PDict []),
      (''meta'', PDict [(''request_id'', PStr []), (''priority'', PStr ''medium'')])]"

definition stale_clock :: clock where
  "stale_clock = \<lparr>utc_now = 1704067501000000, local_now = 1704071101000000\<rparr>"

definition early_clock :: clock where
  "early_clock = \<lparr>utc_now = 1704067140000000, local_now = 1704070740000000\<rparr>"

section \<open>Sequences of calls and shapes of envelopes\<close>

text \<open>The validator after a sequence of \<^verbatim>\<open>validate_payload\<close> calls, each with its clock
  reading, payload and received signature.\<close>

fun validate_all ::
  "stdlib \<Rightarrow> WebhookValidator \<Rightarrow> (clock \<times> pyval \<times> string) list \<Rightarrow> WebhookValidator" where
  "validate_all L V [] = V"
| "validate_all L V (call # calls) =
     validate_all L
       (snd (validate_payload L V (fst call) (fst (snd call)) (snd (snd call)))) calls"

text \<open>The \<^verbatim>\<open>data\<close> field of the envelope that a call of \<^verbatim>\<open>create_payload\<close> returned.\<close>

definition payload_data :: "py_error + pydict \<Rightarrow> pyval option" where
  "payload_data r = (case r of Inl e \<Rightarrow> None | Inr envelope \<Rightarrow> dict_get envelope ''data'')"

text \<open>The request id an envelope presents: \<^verbatim>\<open>meta.request_id\<close> of a mapping \<^verbatim>\<open>meta\<close>.\<close>

definition envelope_request_id :: "pydict \<Rightarrow> pyval option" where
  "envelope_request_id d =
     (case dict_get d ''meta'' of
        Some (PDict m) \<Rightarrow> dict_get m ''request_id''
      | _ \<Rightarrow> None)"

text \<open>The envelope's fields have the types of the data model as far as the validator
  depends on them: a timestamp, when present, is a string; \<^verbatim>\<open>meta\<close>, when present, is a
  mapping, and a request id in it that counts as true is hashable.\<close>

definition timestamp_typed :: "pydict \<Rightarrow> bool" where
  "timestamp_typed d =
     (case dict_get d ''timestamp'' of
        None \<Rightarrow> True
      | Some (PStr s) \<Rightarrow> True
      | Some _ \<Rightarrow> False)"


text \<open>The envelope presents no request id that counts: \<^verbatim>\<open>meta\<close> is absent, or is a
  mapping without \<^verbatim>\<open>request_id\<close>, or with a falsy one.\<close>

definition no_request_id :: "pydict \<Rightarrow> bool" where
  "no_request_id d =
     (case dict_get d ''meta'' of
        None \<Rightarrow> True
      | Some (PDict m) \<Rightarrow>
          (case dict_get m ''request_id'' of
             None \<Rightarrow> True
           | Some x \<Rightarrow> \<not> truthy x)
      | Some _ \<Rightarrow> False)"

section \<open>The standard profile in the words of the specification\<close>

text \<open>
  The specification describes the reduction of \<^verbatim>\<open>detection_details.objects\<close> as a filter
  followed by a map: keep the entries whose confidence is at least 0.70; of each keep the
  type, the confidence rounded to two decimal places under \<^verbatim>\<open>conf\<close>, and the bounding box,
  given by named fields or as a plain sequence, as a sequence of integers, truncated. The
  following definitions say that for numbers that are ints or floats, without the
  functions of the model of the code: rounding to two decimal places takes the nearest
  multiple of one hundredth (of two equally near ones the even one) and the float of it;
  truncation drops the fractional part; 0.70 is the float of that literal.
\<close>

definition is_number :: "pyval \<Rightarrow> bool" where
  "is_number x = (case x of PInt i \<Rightarrow> True | PFloat q \<Rightarrow> True | _ \<Rightarrow> False)"

definition number_value :: "pyval \<Rightarrow> rat" where
  "number_value x = (case x of PInt i \<Rightarrow> of_int i | PFloat q \<Rightarrow> q | _ \<Rightarrow> 0)"

definition spec_two_decimals :: "rat \<Rightarrow> rat" where
  "spec_two_decimals q =
     (let below = \<lfloor>q * 100\<rfloor>; above = below + 1;
          down = q * 100 - of_int below; up = of_int above - q * 100
      in if down < up then of_int below / 100
         else if up < down then of_int above / 100
         else if even below then of_int below / 100 else of_int above / 100)"

definition spec_integer_part :: "rat \<Rightarrow> int" where
  "spec_integer_part q = (if q < 0 then - \<lfloor>- q\<rfloor> else \<lfloor>q\<rfloor>)"

definition spec_truncate :: "pyval \<Rightarrow> pyval" where
  "spec_truncate x = PInt (spec_integer_part (number_value x))"

definition spec_confident :: "pydict \<Rightarrow> bool" where
  "spec_confident ob =
     (case dict_get ob ''confidence'' of
        None \<Rightarrow> False
      | Some c \<Rightarrow> is_number c \<and> double_of_rat (70 / 100) \<le> number_value c)"

definition spec_round2 :: "pyval \<Rightarrow> pyval" where
  "spec_round2 c =
     (case c of PFloat q \<Rightarrow> PFloat (double_of_rat (spec_two_decimals q)) | _ \<Rightarrow> c)"

definition spec_bbox :: "pyval \<Rightarrow> pyval" where
  "spec_bbox b =
     (case b of
        PDict bd \<Rightarrow>
          PList (map (\<lambda>k. spec_truncate (get_or_0 bd k)) [''x'', ''y'', ''width'', ''height''])
      | PList xs \<Rightarrow> PList (map spec_truncate xs)
      | _ \<Rightarrow> b)"

definition spec_compress :: "pyval \<Rightarrow> pyval" where
  "spec_compress obj =
     (case obj of
        PDict ob \<Rightarrow>
          PDict ([(''type'', get_or_0 ob ''type''),
                  (''conf'', spec_round2 (get_or_0 ob ''confidence''))]
                 @ (case dict_get ob ''bounding_box'' of
                      None \<Rightarrow> []
                    | Some b \<Rightarrow> [(''bbox'', spec_bbox b)]))
      | _ \<Rightarrow> obj)"

definition spec_keep :: "pyval \<Rightarrow> bool" where
  "spec_keep obj = (case obj of PDict ob \<Rightarrow> spec_confident ob | _ \<Rightarrow> False)"


text \<open>A bounding box as the specification has it: a mapping with the four named fields,
  or a sequence of any length, of numbers. A detection object as the specification has
  it: a mapping whose confidence, when present, is a number, and which, when it is kept,
  has a type and, when it has a bounding box, a bounding box as above.\<close>

definition wf_bbox :: "pyval \<Rightarrow> bool" where
  "wf_bbox b =
     (case b of
        PDict bd \<Rightarrow>
          list_all (\<lambda>k. case dict_get bd k of None \<Rightarrow> False | Some v \<Rightarrow> is_number v)
            [''x'', ''y'', ''width'', ''height'']
      | PList xs \<Rightarrow> list_all is_number xs
      | _ \<Rightarrow> False)"

definition wf_detection :: "pyval \<Rightarrow> bool" where
  "wf_detection obj =
     (case obj of
        PDict ob \<Rightarrow>
          (case dict_get ob ''confidence'' of
             None \<Rightarrow> True
           | Some c \<Rightarrow>
               is_number c \<and>
               (if spec_confident ob
                then dict_contains ''type'' ob \<and>
                     (case dict_get ob ''bounding_box'' of None \<Rightarrow> True | Some b \<Rightarrow> wf_bbox b)
                else True))
      | _ \<Rightarrow> False)"

section \<open>Canonical serialisation and signing\<close>

text \<open>
  Claim C1, as stated: the bytes that are signed do not depend on the insertion order of
  the envelope's keys. The code serialises with \<^verbatim>\<open>json.dumps\<close> without
  \<^verbatim>\<open>sort_keys\<close>, so they do: the two envelope contents below are equal as key-value maps
  and serialise to different bytes.
\<close>

theorem C1_insertion_order_counterexample:
  "map_of [(''event'', PStr ''e''), (''timestamp'', PStr ''t'')]
     = map_of [(''timestamp'', PStr ''t''), (''event'', PStr ''e'')]
   \<and> utf8_encode (json_dumps example_stdlib
          (PDict [(''event'', PStr ''e''), (''timestamp'', PStr ''t'')]))
     \<noteq> utf8_encode (json_dumps example_stdlib
          (PDict [(''timestamp'', PStr ''t''), (''event'', PStr ''e'')]))"
proof -
  have same_map:
    "map_of [(''event'', PStr ''e''), (''timestamp'', PStr ''t'')]
       = map_of [(''timestamp'', PStr ''t''), (''event'', PStr ''e'')]"
    by (rule ext) simp
  have other_bytes:
    "utf8_encode (json_dumps example_stdlib
        (PDict [(''event'', PStr ''e''), (''timestamp'', PStr ''t'')]))
     \<noteq> utf8_encode (json_dumps example_stdlib
        (PDict [(''timestamp'', PStr ''t''), (''event'', PStr ''e'')]))"
    by code_simp
  from same_map other_bytes show ?thesis by (rule conjI)
qed

text \<open>
  Claim C1, amended: the serialisation is in insertion order, and it is the same for
  signer and verifier. Two envelopes whose items other than the signature field are the
  same in the same order are signed alike by the builder, wherever their signature field
  sits, and the signature the validator computes for the stripped envelope is the
  builder's.
\<close>

theorem C1_same_items_same_signature:
  assumes "dict_pop ''signature'' p1 = dict_pop ''signature'' p2"
  shows "Builder_generate_signature L B p1 = Builder_generate_signature L B p2
         \<and> Validator_generate_signature L (secret_key B) (dict_pop ''signature'' p2)
             = Builder_generate_signature L B p1"
  using assms by (simp add: Builder_generate_signature_def Validator_generate_signature_def)

theorem C1_same_items_same_signature_witness:
  "dict_pop ''signature'' [(''event'', PStr ''e''), (''signature'', PStr ''x'')]
     = dict_pop ''signature'' [(''signature'', PStr ''y''), (''event'', PStr ''e'')]
   \<and> Builder_generate_signature example_stdlib example_builder
         [(''event'', PStr ''e''), (''signature'', PStr ''x'')]
       = Builder_generate_signature example_stdlib example_builder
           [(''signature'', PStr ''y''), (''event'', PStr ''e'')]
   \<and> Validator_generate_signature example_stdlib (secret_key example_builder)
         (dict_pop ''signature'' [(''signature'', PStr ''y''), (''event'', PStr ''e'')])
       = Builder_generate_signature example_stdlib example_builder
           [(''event'', PStr ''e''), (''signature'', PStr ''x'')]"
proof -
  have same_items:
    "dict_pop ''signature'' [(''event'', PStr ''e''), (''signature'', PStr ''x'')]
       = dict_pop ''signature'' [(''signature'', PStr ''y''), (''event'', PStr ''e'')]"
    by (simp add: dict_pop_def)
  from same_items C1_same_items_same_signature [OF same_items] show ?thesis by blast
qed

section \<open>Facts about the operations\<close>

lemma of_char_b64_char: "0 \<le> i \<Longrightarrow> (of_char (b64_char i) :: int) < 128"
  by (auto simp: b64_char_def of_char_of)

lemma of_char_int_nonneg: "0 \<le> (of_char c :: int)"
  by (simp add: of_char_def)

lemma is_ascii_b64encode: "is_ascii (b64encode s)"
  by (induction s rule: b64encode.induct)
     (simp_all add: is_ascii_def Let_def of_char_b64_char of_char_int_nonneg
        pos_imp_zdiv_nonneg_iff)

lemma set_replace_from: "set (replace_from k old [] s) \<subseteq> set s"
  by (induction k old "[] :: string" s rule: replace_from.induct) auto

lemma is_ascii_replace: "is_ascii s \<Longrightarrow> is_ascii (py_replace old [] s)"
  using set_replace_from [of 0 old s]
  by (auto simp: is_ascii_def py_replace_def list_all_iff)

lemma is_ascii_Cons: "is_ascii (c # s) = ((of_char c :: int) < 128 \<and> is_ascii s)"
  by (simp add: is_ascii_def)

lemma is_ascii_validator_signature: "is_ascii (Validator_generate_signature L key p)"
  by (simp add: Validator_generate_signature_def is_ascii_Cons is_ascii_b64encode)

lemma compare_digest_same: "is_ascii s \<Longrightarrow> compare_digest s s = Inr True"
  by (simp add: compare_digest_def)

lemma dict_pop_append_signature:
  "dict_get base ''signature'' = None
   \<Longrightarrow> dict_pop ''signature'' (base @ [(''signature'', v)]) = base"
  by (induction base) (auto simp: dict_pop_def dict_get_def split: if_splits)

lemma dict_pop_absent: "dict_get d k = None \<Longrightarrow> dict_pop k d = d"
  by (induction d) (auto simp: dict_pop_def dict_get_def split: if_splits)

lemma check_required_fields_dict:
  "check_required_fields (PDict d) fs
     = Inr (map (\<lambda>f. ''Missing required field: '' @ f)
             (filter (\<lambda>f. \<not> dict_contains f d) fs))"
  by (induction fs) (simp_all add: py_contains_def)

lemma generate_request_id_nonempty: "generate_request_id env \<noteq> []"
  by (simp add: generate_request_id_def Let_def)

section \<open>Signature round trip\<close>

text \<open>
  Claim C2: an envelope that \<^verbatim>\<open>create_payload\<close> returns, validated together with its own
  signature field by a validator that has the builder's secret and an empty replay set,
  not later than 300 seconds after its creation, is valid with no error. The library is
  taken to read back the timestamp it wrote: \<^verbatim>\<open>fromisoformat\<close> of the builder's string,
  its \<^verbatim>\<open>Z\<close> replaced, is the instant of creation. The call leaves the envelope's request
  id in the replay set.
\<close>

theorem C2_round_trip_valid:
  assumes created: "create_payload L B env event_type data profile priority = Inr envelope"
    and key: "validator_secret_key V = secret_key B"
    and fresh_set: "processed_requests V = {}"
    and parsed:
      "fromisoformat L (py_replace ''Z'' ''+00:00'' (isoformat L (utcnow env) @ ''Z''))
         = Some (Aware (utcnow env))"
    and recent: "utc_now clk - utcnow env \<le> 300000000"
  shows "\<exists>sig. dict_get envelope ''signature'' = Some (PStr sig)
           \<and> validate_payload L V clk (PDict envelope) sig
               = (Inr \<lparr>valid = True, errors = []\<rparr>,
                  V\<lparr>processed_requests := {PStr (generate_request_id env)}\<rparr>)"
proof -
  obtain optimized where opt: "optimize_data_for_profile L data profile = Inr optimized"
    using created by (auto simp: create_payload_def split: sum.splits)
  define base where "base =
     [(''event'', PStr event_type),
      (''timestamp'', PStr (isoformat L (utcnow env) @ ''Z'')),
      (''source'', PDict
         [(''system'', PStr (system_name B)),
          (''version'', PStr (version B)),
          (''instance_id'', PStr (system_name B @ ''-'' @ take 8 (instance_uuid_hex env)))]),
      (''data'', PDict optimized),
      (''meta'', PDict
         [(''request_id'', PStr (generate_request_id env)),
          (''priority'', PStr priority),
          (''schema_version'', PStr ''1.0.0'')])]"
  define sig where "sig = Builder_generate_signature L B base"
  have no_sig: "dict_get base ''signature'' = None"
    by (simp add: base_def dict_get_def)
  have env_eq: "envelope = base @ [(''signature'', PStr sig)]"
    using created opt by (simp add: create_payload_def base_def sig_def)
  have sig_field: "dict_get envelope ''signature'' = Some (PStr sig)"
    by (simp add: env_eq base_def dict_get_def)
  have req: "check_required_fields (PDict envelope) required_fields = Inr []"
    by (simp add: env_eq base_def required_fields_def py_contains_def dict_contains_def
        dict_get_def)
  have age: "\<not> 300 < age_seconds clk (Aware (utcnow env))"
    using recent by (simp add: age_seconds_def)
  have ts: "check_timestamp L clk (PDict envelope) = Inr []"
    using parsed age
    by (simp add: check_timestamp_def env_eq base_def py_contains_def py_getitem_def
        dict_contains_def dict_get_def)
  have rp: "check_replay (PDict envelope) {} = (Inr [], {PStr (generate_request_id env)})"
    by (simp add: check_replay_def env_eq base_def py_get_def dict_get_def truthy_def
        hashable_def set_contains_def generate_request_id_nonempty)
  have pop: "dict_pop ''signature'' envelope = base"
    unfolding env_eq by (rule dict_pop_append_signature [OF no_sig])
  have same: "Validator_generate_signature L (validator_secret_key V) base = sig"
    by (simp add: sig_def key Validator_generate_signature_def Builder_generate_signature_def
        dict_pop_absent [OF no_sig])
  have vs: "verify_signature L (validator_secret_key V) (PDict envelope) sig = Inr True"
    using is_ascii_validator_signature [of L "validator_secret_key V" base]
    by (simp add: verify_signature_def pop same compare_digest_same is_ascii_replace)
  have "validate_payload L V clk (PDict envelope) sig
          = (Inr \<lparr>valid = True, errors = []\<rparr>,
             V\<lparr>processed_requests := {PStr (generate_request_id env)}\<rparr>)"
    by (simp add: validate_payload_def req ts fresh_set rp vs)
  with sig_field show ?thesis by blast
qed

theorem C2_round_trip_valid_witness:
  "create_payload example_stdlib example_builder example_env ''incident_detected''
       incident_data ''minimal'' ''medium'' = Inr example_envelope
   \<and> validator_secret_key example_validator = secret_key example_builder
   \<and> processed_requests example_validator = {}
   \<and> fromisoformat example_stdlib
         (py_replace ''Z'' ''+00:00'' (isoformat example_stdlib (utcnow example_env) @ ''Z''))
       = Some (Aware (utcnow example_env))
   \<and> utc_now example_clock - utcnow example_env \<le> 300000000
   \<and> dict_get example_envelope ''signature'' = Some (PStr example_signature)
   \<and> validate_payload example_stdlib example_validator example_clock
         (PDict example_envelope) example_signature
       = (Inr \<lparr>valid = True, errors = []\<rparr>,
          example_validator\<lparr>processed_requests := {PStr ''req_1704067200000_89abcdef''}\<rparr>)"
proof -
  have created:
    "create_payload example_stdlib example_builder example_env ''incident_detected''
       incident_data ''minimal'' ''medium'' = Inr example_envelope"
    by code_simp
  have key: "validator_secret_key example_validator = secret_key example_builder"
    by (simp add: example_validator_def example_builder_def)
  have fresh_set: "processed_requests example_validator = {}"
    by (simp add: example_validator_def)
  have parsed:
    "fromisoformat example_stdlib
        (py_replace ''Z'' ''+00:00'' (isoformat example_stdlib (utcnow example_env) @ ''Z''))
       = Some (Aware (utcnow example_env))"
    by (simp add: example_stdlib_def example_env_def py_replace_def)
  have recent: "utc_now example_clock - utcnow example_env \<le> 300000000"
    by (simp add: example_clock_def example_env_def)
  have sig_field: "dict_get example_envelope ''signature'' = Some (PStr example_signature)"
    by (simp add: example_envelope_def example_signature_def dict_get_def)
  have rid: "generate_request_id example_env = ''req_1704067200000_89abcdef''"
    by code_simp
  from C2_round_trip_valid [OF created key fresh_set parsed recent] sig_field rid
  have "validate_payload example_stdlib example_validator example_clock
          (PDict example_envelope) example_signature
        = (Inr \<lparr>valid = True, errors = []\<rparr>,
           example_validator\<lparr>processed_requests := {PStr ''req_1704067200000_89abcdef''}\<rparr>)"
    by auto
  with created key fresh_set parsed recent sig_field show ?thesis by blast
qed

section \<open>Facts about the validator\<close>

lemma set_contains_insert: "set_contains x (insert x S)"
  by (simp add: set_contains_def)

lemma set_contains_mono: "set_contains x S \<Longrightarrow> S \<subseteq> T \<Longrightarrow> set_contains x T"
  by (auto simp: set_contains_def)

lemma check_replay_mono: "S \<subseteq> snd (check_replay p S)"
  by (auto simp: check_replay_def split: sum.splits)

lemma validate_payload_mono:
  "processed_requests V \<subseteq> processed_requests (snd (validate_payload L V clk p sig))"
  using check_replay_mono [of "processed_requests V" p]
  by (auto simp: validate_payload_def Let_def split: sum.splits prod.splits)

lemma validate_payload_key:
  "validator_secret_key (snd (validate_payload L V clk p sig)) = validator_secret_key V"
  by (auto simp: validate_payload_def Let_def split: sum.splits prod.splits)

lemma validate_all_mono:
  "processed_requests V \<subseteq> processed_requests (validate_all L V calls)"
proof (induction calls arbitrary: V)
  case Nil
  show ?case by simp
next
  case (Cons call calls)
  have "processed_requests V
          \<subseteq> processed_requests (snd (validate_payload L V (fst call) (fst (snd call)) (snd (snd call))))"
    by (rule validate_payload_mono)
  also have "\<dots> \<subseteq> processed_requests (validate_all L V (call # calls))"
    using Cons.IH by simp
  finally show ?case .
qed

lemma check_timestamp_typed:
  "timestamp_typed d \<Longrightarrow> \<exists>es. check_timestamp L clk (PDict d) = Inr es"
  by (auto simp: timestamp_typed_def check_timestamp_def py_contains_def py_getitem_def
      dict_contains_def split: option.splits pyval.splits)

lemma check_replay_new:
  assumes "envelope_request_id d = Some rid" "truthy rid" "hashable rid" "\<not> set_contains rid S"
  shows "check_replay (PDict d) S = (Inr [], insert rid S)"
  using assms
  by (auto simp: check_replay_def envelope_request_id_def py_get_def
      split: option.splits pyval.splits)

lemma check_replay_seen:
  assumes "envelope_request_id d = Some rid" "truthy rid" "hashable rid" "set_contains rid S"
  shows "check_replay (PDict d) S = (Inr [''Duplicate request ID (replay attack)''], S)"
  using assms
  by (auto simp: check_replay_def envelope_request_id_def py_get_def
      split: option.splits pyval.splits)

lemma validate_payload_new_id:
  assumes "envelope_request_id d = Some rid" "truthy rid" "hashable rid"
    "\<not> set_contains rid (processed_requests V)" "timestamp_typed d"
  shows "processed_requests (snd (validate_payload L V clk (PDict d) sig))
           = insert rid (processed_requests V)"
proof -
  obtain es where ts: "check_timestamp L clk (PDict d) = Inr es"
    using check_timestamp_typed [OF assms(5)] by blast
  show ?thesis
    by (simp add: validate_payload_def check_required_fields_dict ts
        check_replay_new [OF assms(1-4)] Let_def split: sum.splits)
qed

lemma validate_payload_seen_id:
  assumes "envelope_request_id d = Some rid" "truthy rid" "hashable rid"
    "set_contains rid (processed_requests V)"
    "fst (validate_payload L V clk (PDict d) sig) = Inr r"
  shows "''Duplicate request ID (replay attack)'' \<in> set (errors r)"
  using assms(5)
  by (auto simp: validate_payload_def check_required_fields_dict
      check_replay_seen [OF assms(1-4)] Let_def split: sum.splits)

lemma dict_get_Nil: "dict_get [] k = None"
  by (simp add: dict_get_def)

lemma validate_payload_parts:
  assumes "fst (validate_payload L V clk p sig) = Inr r"
  shows "\<exists>e1 e2 e3 S' ok.
           check_required_fields p required_fields = Inr e1
         \<and> check_timestamp L clk p = Inr e2
         \<and> check_replay p (processed_requests V) = (Inr e3, S')
         \<and> verify_signature L (validator_secret_key V) p sig = Inr ok
         \<and> errors r = e1 @ e2 @ e3 @ (if ok then [] else [''Invalid signature''])
         \<and> valid r = (errors r = [])
         \<and> snd (validate_payload L V clk p sig) = V\<lparr>processed_requests := S'\<rparr>"
proof (cases "check_required_fields p required_fields")
  case (Inl e)
  with assms show ?thesis by (simp add: validate_payload_def)
next
  case e1: (Inr e1)
  show ?thesis
  proof (cases "check_timestamp L clk p")
    case (Inl e)
    with assms e1 show ?thesis by (simp add: validate_payload_def)
  next
    case e2: (Inr e2)
    obtain x S' where rp: "check_replay p (processed_requests V) = (x, S')"
      by (cases "check_replay p (processed_requests V)")
    show ?thesis
    proof (cases x)
      case (Inl e)
      with assms e1 e2 rp show ?thesis by (simp add: validate_payload_def)
    next
      case e3: (Inr e3)
      show ?thesis
      proof (cases "verify_signature L (validator_secret_key V) p sig")
        case (Inl e)
        with assms e1 e2 rp e3 show ?thesis by (simp add: validate_payload_def)
      next
        case ok: (Inr ok)
        have whole: "validate_payload L V clk p sig =
           (Inr \<lparr>valid = (e1 @ e2 @ e3 @ (if ok then [] else [''Invalid signature'']) = []),
                 errors = e1 @ e2 @ e3 @ (if ok then [] else [''Invalid signature''])\<rparr>,
            V\<lparr>processed_requests := S'\<rparr>)"
          using e1 e2 rp e3 ok by (simp add: validate_payload_def Let_def)
        with assms have r: "r = \<lparr>valid = (e1 @ e2 @ e3 @ (if ok then [] else [''Invalid signature'']) = []),
                 errors = e1 @ e2 @ e3 @ (if ok then [] else [''Invalid signature''])\<rparr>"
          by simp
        have "check_required_fields p required_fields = Inr e1
         \<and> check_timestamp L clk p = Inr e2
         \<and> check_replay p (processed_requests V) = (Inr e3, S')
         \<and> verify_signature L (validator_secret_key V) p sig = Inr ok
         \<and> errors r = e1 @ e2 @ e3 @ (if ok then [] else [''Invalid signature''])
         \<and> valid r = (errors r = [])
         \<and> snd (validate_payload L V clk p sig) = V\<lparr>processed_requests := S'\<rparr>"
          using e1 e2 rp e3 ok by (simp add: r whole)
        then show ?thesis by blast
      qed
    qed
  qed
qed

lemma validate_payload_verdict:
  assumes "check_required_fields p required_fields = Inr e1"
    and "check_timestamp L clk p = Inr e2"
    and "check_replay p (processed_requests V) = (Inr e3, S')"
    and "verify_signature L (validator_secret_key V) p sig = Inr ok"
  shows "validate_payload L V clk p sig =
           (Inr \<lparr>valid = (e1 @ e2 @ e3 @ (if ok then [] else [''Invalid signature'']) = []),
                 errors = e1 @ e2 @ e3 @ (if ok then [] else [''Invalid signature''])\<rparr>,
            V\<lparr>processed_requests := S'\<rparr>)"
  using assms by (simp add: validate_payload_def Let_def)

lemma check_timestamp_dict:
  "timestamp_typed d \<Longrightarrow>
   check_timestamp L clk (PDict d) =
     Inr (case dict_get d ''timestamp'' of
            Some (PStr s) \<Rightarrow>
              (case fromisoformat L (py_replace ''Z'' ''+00:00'' s) of
                 None \<Rightarrow> [''Invalid timestamp format'']
               | Some t \<Rightarrow> if 300 < age_seconds clk t then [''Timestamp too old''] else [])
          | _ \<Rightarrow> [])"
proof (cases "dict_get d ''timestamp''")
  case None
  then show ?thesis
    by (simp add: check_timestamp_def py_contains_def dict_contains_def)
next
  case (Some v)
  assume "timestamp_typed d"
  with Some obtain s where "v = PStr s"
    by (cases v) (simp_all add: timestamp_typed_def)
  with Some show ?thesis
    by (simp add: check_timestamp_def py_contains_def py_getitem_def dict_contains_def
        split: option.splits)
qed

lemma check_timestamp_errors:
  "check_timestamp L clk p = Inr es \<Longrightarrow>
     es = [] \<or> es = [''Invalid timestamp format''] \<or> es = [''Timestamp too old'']"
  unfolding check_timestamp_def
  by (simp split: sum.splits bool.splits pyval.splits option.splits if_splits)



lemma check_replay_errors:
  "check_replay p S = (Inr es, S') \<Longrightarrow> es = [] \<or> es = [''Duplicate request ID (replay attack)'']"
  unfolding check_replay_def
  by (simp split: sum.splits if_splits)

lemma no_request_id_replay:
  "no_request_id d \<Longrightarrow> check_replay (PDict d) S = (Inr [], S)"
proof (cases "dict_get d ''meta''")
  case None
  then show ?thesis
    by (simp add: check_replay_def py_get_def dict_get_Nil truthy_def)
next
  case (Some m)
  assume none: "no_request_id d"
  with Some obtain md where md: "m = PDict md"
    by (cases m) (simp_all add: no_request_id_def)
  from none Some md show ?thesis
    by (cases "dict_get md ''request_id''")
       (simp_all add: check_replay_def py_get_def no_request_id_def truthy_def)
qed

lemma missing_hd:
  "e \<in> set (map (\<lambda>f. ''Missing required field: '' @ f) fs) \<Longrightarrow> hd e = CHR ''M''"
  by auto

lemma required_errors_not_other:
  assumes "check_required_fields (PDict d) fs = Inr e1"
  shows "''Duplicate request ID (replay attack)'' \<notin> set e1 \<and> ''Invalid signature'' \<notin> set e1
     \<and> ''Timestamp too old'' \<notin> set e1 \<and> ''Invalid timestamp format'' \<notin> set e1"
proof -
  have e1: "e1 = map (\<lambda>f. ''Missing required field: '' @ f) (filter (\<lambda>f. \<not> dict_contains f d) fs)"
    using assms by (simp add: check_required_fields_dict)
  have "\<And>e. e \<in> set e1 \<Longrightarrow> hd e = CHR ''M''"
    unfolding e1 by (rule missing_hd)
  then show ?thesis by fastforce
qed

lemma check_required_fields_list:
  "\<exists>es. check_required_fields (PList xs) fs = Inr es"
  by (induction fs) (auto simp: py_contains_def)

lemma check_required_fields_str:
  "\<exists>es. check_required_fields (PStr s) fs = Inr es"
  by (induction fs) (auto simp: py_contains_def)

lemma validate_payload_first_TypeError:
  "py_contains ''event'' payload = Inl TypeError \<Longrightarrow>
     validate_payload L V clk payload sig = (Inl TypeError, V)"
  by (simp add: validate_payload_def required_fields_def)

section \<open>Replay set\<close>

text \<open>
  Claim C3: when an envelope presents a request id that is not yet in the replay set, the
  call puts it there, whatever the signature is and whatever else fails (the timestamp
  field, when present, being a string, so that the call reaches the replay check). After
  any further calls, every call that presents the same request id and returns a verdict
  reports \<^verbatim>\<open>Duplicate request ID (replay attack)\<close>; and if the first call returned a verdict,
  the same call made again returns one with that error.
\<close>

theorem C3_request_id_consumed:
  assumes rid: "envelope_request_id d = Some rid"
    and t: "truthy rid" and h: "hashable rid"
    and new: "\<not> set_contains rid (processed_requests V)"
    and ts: "timestamp_typed d"
  shows "processed_requests (snd (validate_payload L V clk (PDict d) sig))
           = insert rid (processed_requests V)
     \<and> (\<forall>calls clk' d' sig' r.
          envelope_request_id d' = Some rid \<longrightarrow>
          fst (validate_payload L
                 (validate_all L (snd (validate_payload L V clk (PDict d) sig)) calls)
                 clk' (PDict d') sig') = Inr r \<longrightarrow>
          ''Duplicate request ID (replay attack)'' \<in> set (errors r))
     \<and> (\<forall>clk' r. fst (validate_payload L V clk (PDict d) sig) = Inr r \<longrightarrow>
          (\<exists>r'. fst (validate_payload L (snd (validate_payload L V clk (PDict d) sig))
                        clk' (PDict d) sig) = Inr r'
                \<and> ''Duplicate request ID (replay attack)'' \<in> set (errors r')))"
proof -
  let ?V1 = "snd (validate_payload L V clk (PDict d) sig)"
  have first: "processed_requests ?V1 = insert rid (processed_requests V)"
    by (rule validate_payload_new_id [OF rid t h new ts])
  have in1: "set_contains rid (processed_requests ?V1)"
    by (simp add: first set_contains_insert)
  have later: "\<forall>calls clk' d' sig' r.
          envelope_request_id d' = Some rid \<longrightarrow>
          fst (validate_payload L (validate_all L ?V1 calls) clk' (PDict d') sig') = Inr r \<longrightarrow>
          ''Duplicate request ID (replay attack)'' \<in> set (errors r)"
  proof (intro allI impI)
    fix calls clk' d' sig' r
    assume rid': "envelope_request_id d' = Some rid"
      and verdict: "fst (validate_payload L (validate_all L ?V1 calls) clk' (PDict d') sig') = Inr r"
    have "set_contains rid (processed_requests (validate_all L ?V1 calls))"
      using in1 validate_all_mono by (rule set_contains_mono)
    then show "''Duplicate request ID (replay attack)'' \<in> set (errors r)"
      using verdict by (rule validate_payload_seen_id [OF rid' t h])
  qed
  have again: "\<forall>clk' r. fst (validate_payload L V clk (PDict d) sig) = Inr r \<longrightarrow>
          (\<exists>r'. fst (validate_payload L ?V1 clk' (PDict d) sig) = Inr r'
                \<and> ''Duplicate request ID (replay attack)'' \<in> set (errors r'))"
  proof (intro allI impI)
    fix clk' r
    assume "fst (validate_payload L V clk (PDict d) sig) = Inr r"
    from validate_payload_parts [OF this] obtain e1 ok where
      e1: "check_required_fields (PDict d) required_fields = Inr e1" and
      ok: "verify_signature L (validator_secret_key V) (PDict d) sig = Inr ok"
      by blast
    obtain e2 where e2: "check_timestamp L clk' (PDict d) = Inr e2"
      using check_timestamp_typed [OF ts] by blast
    have e3: "check_replay (PDict d) (processed_requests ?V1)
                = (Inr [''Duplicate request ID (replay attack)''], processed_requests ?V1)"
      by (rule check_replay_seen [OF rid t h in1])
    have ok': "verify_signature L (validator_secret_key ?V1) (PDict d) sig = Inr ok"
      using ok by (simp add: validate_payload_key)
    have "fst (validate_payload L ?V1 clk' (PDict d) sig)
            = Inr \<lparr>valid = (e1 @ e2 @ [''Duplicate request ID (replay attack)'']
                              @ (if ok then [] else [''Invalid signature'']) = []),
                   errors = e1 @ e2 @ [''Duplicate request ID (replay attack)'']
                              @ (if ok then [] else [''Invalid signature''])\<rparr>"
      by (simp add: validate_payload_verdict [OF e1 e2 e3 ok'])
    then show "\<exists>r'. fst (validate_payload L ?V1 clk' (PDict d) sig) = Inr r'
                \<and> ''Duplicate request ID (replay attack)'' \<in> set (errors r')"
      by simp
  qed
  from first later again show ?thesis by blast
qed

theorem C3_request_id_consumed_witness:
  "envelope_request_id partial_envelope = Some (PStr ''req_1'')
   \<and> truthy (PStr ''req_1'') \<and> hashable (PStr ''req_1'')
   \<and> \<not> set_contains (PStr ''req_1'') (processed_requests example_validator)
   \<and> timestamp_typed partial_envelope
   \<and> fst (validate_payload example_stdlib example_validator example_clock
             (PDict partial_envelope) ''sha256=bad'')
       = Inr \<lparr>valid = False,
              errors = [''Missing required field: data'', ''Invalid signature'']\<rparr>
   \<and> processed_requests
         (snd (validate_payload example_stdlib example_validator example_clock
                 (PDict partial_envelope) ''sha256=bad''))
       = {PStr ''req_1''}
   \<and> fst (validate_payload example_stdlib
             (snd (validate_payload example_stdlib example_validator example_clock
                     (PDict partial_envelope) ''sha256=bad''))
             stale_clock (PDict partial_envelope) ''sha256=bad'')
       = Inr \<lparr>valid = False,
              errors = [''Missing required field: data'', ''Timestamp too old'',
                        ''Duplicate request ID (replay attack)'', ''Invalid signature'']\<rparr>
   \<and> ''Duplicate request ID (replay attack)''
       \<in> set (errors \<lparr>valid = False,
              errors = [''Missing required field: data'', ''Timestamp too old'',
                        ''Duplicate request ID (replay attack)'', ''Invalid signature'']\<rparr>)"
proof -
  have rid: "envelope_request_id partial_envelope = Some (PStr ''req_1'')"
    by (simp add: envelope_request_id_def partial_envelope_def dict_get_def)
  have t: "truthy (PStr ''req_1'')" by (simp add: truthy_def)
  have h: "hashable (PStr ''req_1'')" by (simp add: hashable_def)
  have new: "\<not> set_contains (PStr ''req_1'') (processed_requests example_validator)"
    by (simp add: set_contains_def example_validator_def)
  have ts: "timestamp_typed partial_envelope"
    by (simp add: timestamp_typed_def partial_envelope_def dict_get_def)
  have first:
    "fst (validate_payload example_stdlib example_validator example_clock
             (PDict partial_envelope) ''sha256=bad'')
       = Inr \<lparr>valid = False,
              errors = [''Missing required field: data'', ''Invalid signature'']\<rparr>"
    by code_simp
  have second:
    "fst (validate_payload example_stdlib
             (validate_all example_stdlib
                (snd (validate_payload example_stdlib example_validator example_clock
                     (PDict partial_envelope) ''sha256=bad'')) [])
             stale_clock (PDict partial_envelope) ''sha256=bad'')
       = Inr \<lparr>valid = False,
              errors = [''Missing required field: data'', ''Timestamp too old'',
                        ''Duplicate request ID (replay attack)'', ''Invalid signature'']\<rparr>"
    by code_simp
  note consumed = C3_request_id_consumed [OF rid t h new ts, of example_stdlib example_clock "''sha256=bad''"]
  from consumed have state:
    "processed_requests
         (snd (validate_payload example_stdlib example_validator example_clock
                 (PDict partial_envelope) ''sha256=bad''))
       = {PStr ''req_1''}"
    by (simp add: example_validator_def)
  from consumed rid second have dup:
    "''Duplicate request ID (replay attack)''
       \<in> set (errors \<lparr>valid = False,
              errors = [''Missing required field: data'', ''Timestamp too old'',
                        ''Duplicate request ID (replay attack)'', ''Invalid signature'']\<rparr>)"
    by blast
  from second have second': "fst (validate_payload example_stdlib
             (snd (validate_payload example_stdlib example_validator example_clock
                     (PDict partial_envelope) ''sha256=bad''))
             stale_clock (PDict partial_envelope) ''sha256=bad'')
       = Inr \<lparr>valid = False,
              errors = [''Missing required field: data'', ''Timestamp too old'',
                        ''Duplicate request ID (replay attack)'', ''Invalid signature'']\<rparr>"
    by simp
  from rid t h new ts first state second' dup show ?thesis by blast
qed

text \<open>
  Claim C8: an envelope whose \<^verbatim>\<open>meta\<close> is absent, or has no \<^verbatim>\<open>request_id\<close>, or a falsy one,
  skips the replay check. The call leaves the validator as it was, a verdict never holds
  the replay error, and any number of calls with this envelope leave the validator
  unchanged.
\<close>

theorem C8_no_request_id_skips_replay:
  assumes "no_request_id d"
  shows "snd (validate_payload L V clk (PDict d) sig) = V
         \<and> (\<forall>r. fst (validate_payload L V clk (PDict d) sig) = Inr r
                \<longrightarrow> ''Duplicate request ID (replay attack)'' \<notin> set (errors r))
         \<and> validate_all L V (map (\<lambda>cs. (fst cs, PDict d, snd cs)) calls) = V"
proof -
  have rp: "\<And>S. check_replay (PDict d) S = (Inr [], S)"
    by (rule no_request_id_replay [OF assms])
  have same: "\<And>c s. snd (validate_payload L V c (PDict d) s) = V"
    by (simp add: validate_payload_def rp Let_def split: sum.splits)
  have none: "\<forall>r. fst (validate_payload L V clk (PDict d) sig) = Inr r
                \<longrightarrow> ''Duplicate request ID (replay attack)'' \<notin> set (errors r)"
  proof (intro allI impI)
    fix r
    assume "fst (validate_payload L V clk (PDict d) sig) = Inr r"
    from validate_payload_parts [OF this] obtain e1 e2 e3 S' ok where
      e1: "check_required_fields (PDict d) required_fields = Inr e1" and
      e2: "check_timestamp L clk (PDict d) = Inr e2" and
      e3: "check_replay (PDict d) (processed_requests V) = (Inr e3, S')" and
      errs: "errors r = e1 @ e2 @ e3 @ (if ok then [] else [''Invalid signature''])"
      by blast
    from e3 rp have "e3 = []" by simp
    moreover have "''Duplicate request ID (replay attack)'' \<notin> set e1"
      using required_errors_not_other [OF e1] by simp
    moreover have "''Duplicate request ID (replay attack)'' \<notin> set e2"
      using check_timestamp_errors [OF e2] by auto
    ultimately show "''Duplicate request ID (replay attack)'' \<notin> set (errors r)"
      by (simp add: errs)
  qed
  have many: "validate_all L V (map (\<lambda>cs. (fst cs, PDict d, snd cs)) calls) = V"
    by (induction calls) (simp_all add: same)
  from same none many show ?thesis by blast
qed

theorem C8_no_request_id_skips_replay_witness:
  "no_request_id anonymous_envelope
   \<and> snd (validate_payload example_stdlib example_validator example_clock
            (PDict anonymous_envelope) ''sha256=bad'') = example_validator
   \<and> fst (validate_payload example_stdlib example_validator example_clock
            (PDict anonymous_envelope) ''sha256=bad'')
       = Inr \<lparr>valid = False, errors = [''Invalid signature'']\<rparr>
   \<and> ''Duplicate request ID (replay attack)''
       \<notin> set (errors \<lparr>valid = False, errors = [''Invalid signature'']\<rparr>)
   \<and> validate_all example_stdlib example_validator
        [(example_clock, PDict anonymous_envelope, ''sha256=bad''),
         (stale_clock, PDict anonymous_envelope, ''sha256=other'')] = example_validator"
proof -
  have shape: "no_request_id anonymous_envelope"
    by (simp add: no_request_id_def anonymous_envelope_def dict_get_def truthy_def)
  have verdict: "fst (validate_payload example_stdlib example_validator example_clock
            (PDict anonymous_envelope) ''sha256=bad'')
       = Inr \<lparr>valid = False, errors = [''Invalid signature'']\<rparr>"
    by code_simp
  note skipped = C8_no_request_id_skips_replay [OF shape, of example_stdlib example_validator example_clock "''sha256=bad''"
      "[(example_clock, ''sha256=bad''), (stale_clock, ''sha256=other'')]"]
  from skipped have same: "snd (validate_payload example_stdlib example_validator example_clock
            (PDict anonymous_envelope) ''sha256=bad'') = example_validator"
    by blast
  from skipped verdict have none: "''Duplicate request ID (replay attack)''
       \<notin> set (errors \<lparr>valid = False, errors = [''Invalid signature'']\<rparr>)"
    by blast
  from skipped have many: "validate_all example_stdlib example_validator
        [(example_clock, PDict anonymous_envelope, ''sha256=bad''),
         (stale_clock, PDict anonymous_envelope, ''sha256=other'')] = example_validator"
    by (simp del: validate_all.simps)
  from shape same verdict none many show ?thesis by blast
qed

section \<open>Freshness\<close>

text \<open>
  Claim C4: for a timestamp that parses, the freshness check reports
  \<^verbatim>\<open>Timestamp too old\<close> exactly when the age is more than 300 seconds, and never the
  format error. So an age of 299 seconds passes, one of 301 seconds fails, and a negative
  age (a timestamp in the future) is never rejected. The same holds for the error list of
  every verdict of \<^verbatim>\<open>validate_payload\<close>.
\<close>

theorem C4_freshness_boundary:
  assumes ts: "dict_get d ''timestamp'' = Some (PStr s)"
    and parse: "fromisoformat L (py_replace ''Z'' ''+00:00'' s) = Some t"
  shows "check_timestamp L clk (PDict d)
           = Inr (if 300 < age_seconds clk t then [''Timestamp too old''] else [])
         \<and> (\<forall>r. fst (validate_payload L V clk (PDict d) sig) = Inr r
                \<longrightarrow> ((''Timestamp too old'' \<in> set (errors r)) = (300 < age_seconds clk t))
                    \<and> ''Invalid timestamp format'' \<notin> set (errors r))"
proof -
  have typed: "timestamp_typed d"
    using ts by (simp add: timestamp_typed_def)
  have chk: "check_timestamp L clk (PDict d)
           = Inr (if 300 < age_seconds clk t then [''Timestamp too old''] else [])"
    using ts parse by (simp add: check_timestamp_dict [OF typed])
  have "\<forall>r. fst (validate_payload L V clk (PDict d) sig) = Inr r
                \<longrightarrow> ((''Timestamp too old'' \<in> set (errors r)) = (300 < age_seconds clk t))
                    \<and> ''Invalid timestamp format'' \<notin> set (errors r)"
  proof (intro allI impI)
    fix r
    assume "fst (validate_payload L V clk (PDict d) sig) = Inr r"
    from validate_payload_parts [OF this] obtain e1 e2 e3 S' ok where
      e1: "check_required_fields (PDict d) required_fields = Inr e1" and
      e2: "check_timestamp L clk (PDict d) = Inr e2" and
      e3: "check_replay (PDict d) (processed_requests V) = (Inr e3, S')" and
      errs: "errors r = e1 @ e2 @ e3 @ (if ok then [] else [''Invalid signature''])"
      by blast
    have m1: "''Timestamp too old'' \<notin> set e1 \<and> ''Invalid timestamp format'' \<notin> set e1"
      using required_errors_not_other [OF e1] by simp
    have m3: "''Timestamp too old'' \<notin> set e3 \<and> ''Invalid timestamp format'' \<notin> set e3"
      using check_replay_errors [OF e3] by auto
    have m2: "e2 = (if 300 < age_seconds clk t then [''Timestamp too old''] else [])"
      using e2 chk by simp
    show "((''Timestamp too old'' \<in> set (errors r)) = (300 < age_seconds clk t))
                    \<and> ''Invalid timestamp format'' \<notin> set (errors r)"
      using m1 m3 by (simp add: errs m2)
  qed
  with chk show ?thesis by blast
qed

theorem C4_freshness_boundary_witness:
  "dict_get partial_envelope ''timestamp'' = Some (PStr ''2024-01-01T00:00:00Z'')
   \<and> fromisoformat example_stdlib (py_replace ''Z'' ''+00:00'' ''2024-01-01T00:00:00Z'')
       = Some (Aware 1704067200000000)
   \<and> age_seconds example_clock (Aware 1704067200000000) = 299
   \<and> check_timestamp example_stdlib example_clock (PDict partial_envelope) = Inr []
   \<and> age_seconds stale_clock (Aware 1704067200000000) = 301
   \<and> check_timestamp example_stdlib stale_clock (PDict partial_envelope)
       = Inr [''Timestamp too old'']
   \<and> age_seconds early_clock (Aware 1704067200000000) = - 60
   \<and> check_timestamp example_stdlib early_clock (PDict partial_envelope) = Inr []"
proof -
  have ts: "dict_get partial_envelope ''timestamp'' = Some (PStr ''2024-01-01T00:00:00Z'')"
    by (simp add: partial_envelope_def dict_get_def)
  have parse: "fromisoformat example_stdlib (py_replace ''Z'' ''+00:00'' ''2024-01-01T00:00:00Z'')
       = Some (Aware 1704067200000000)"
    by (simp add: example_stdlib_def py_replace_def)
  have a1: "age_seconds example_clock (Aware 1704067200000000) = 299"
    by (simp add: age_seconds_def example_clock_def)
  have a2: "age_seconds stale_clock (Aware 1704067200000000) = 301"
    by (simp add: age_seconds_def stale_clock_def)
  have a3: "age_seconds early_clock (Aware 1704067200000000) = - 60"
    by (simp add: age_seconds_def early_clock_def)
  have c1: "check_timestamp example_stdlib example_clock (PDict partial_envelope) = Inr []"
    using C4_freshness_boundary [OF ts parse, of example_clock example_validator "''sha256=bad''"] by (simp add: a1)
  have c2: "check_timestamp example_stdlib stale_clock (PDict partial_envelope)
       = Inr [''Timestamp too old'']"
    using C4_freshness_boundary [OF ts parse, of stale_clock example_validator "''sha256=bad''"] by (simp add: a2)
  have c3: "check_timestamp example_stdlib early_clock (PDict partial_envelope) = Inr []"
    using C4_freshness_boundary [OF ts parse, of early_clock example_validator "''sha256=bad''"] by (simp add: a3)
  from ts parse a1 c1 a2 c2 a3 c3 show ?thesis by blast
qed

section \<open>Input that is not a mapping\<close>

text \<open>
  Claim C7, as stated: a payload that is not a mapping is answered with a distinct
  malformed-envelope error, without an exception and without the per-field checks. The
  code has no such error: on the empty list the loop over the required fields runs and
  finds all five missing, and the call then ends in \<^verbatim>\<open>AttributeError\<close>.
\<close>

theorem C7_malformed_envelope_counterexample:
  "check_required_fields (PList []) required_fields
     = Inr [''Missing required field: event'', ''Missing required field: timestamp'',
            ''Missing required field: source'', ''Missing required field: data'',
            ''Missing required field: meta'']
   \<and> validate_payload example_stdlib example_validator example_clock (PList []) ''sha256=abc''
     = (Inl AttributeError, example_validator)"
proof -
  have checks:
    "check_required_fields (PList []) required_fields
       = Inr [''Missing required field: event'', ''Missing required field: timestamp'',
              ''Missing required field: source'', ''Missing required field: data'',
              ''Missing required field: meta'']"
    by code_simp
  have raised:
    "validate_payload example_stdlib example_validator example_clock (PList []) ''sha256=abc''
       = (Inl AttributeError, example_validator)"
    by code_simp
  from checks raised show ?thesis by (rule conjI)
qed

text \<open>
  Claim C7, amended: a payload that is not a mapping gets no verdict. The call raises
  \<^verbatim>\<open>TypeError\<close> or \<^verbatim>\<open>AttributeError\<close> and leaves the validator, its replay set included,
  as it was.
\<close>

theorem C7_non_mapping_raises:
  assumes "\<forall>d. payload \<noteq> PDict d"
  shows "snd (validate_payload L V clk payload sig) = V
         \<and> (fst (validate_payload L V clk payload sig) = Inl TypeError
            \<or> fst (validate_payload L V clk payload sig) = Inl AttributeError)"
proof (cases payload)
  case (PList xs)
  obtain es where es: "check_required_fields (PList xs) required_fields = Inr es"
    using check_required_fields_list by blast
  show ?thesis
  proof (cases "PStr ''timestamp'' \<in> set xs")
    case True
    then have "check_timestamp L clk (PList xs) = Inl TypeError"
      by (simp add: check_timestamp_def py_contains_def py_getitem_def)
    with es show ?thesis by (simp add: PList validate_payload_def)
  next
    case False
    then have "check_timestamp L clk (PList xs) = Inr []"
      by (simp add: check_timestamp_def py_contains_def)
    moreover have "check_replay (PList xs) (processed_requests V)
                     = (Inl AttributeError, processed_requests V)"
      by (simp add: check_replay_def py_get_def)
    ultimately show ?thesis using es by (simp add: PList validate_payload_def)
  qed
next
  case (PStr s)
  obtain es where es: "check_required_fields (PStr s) required_fields = Inr es"
    using check_required_fields_str by blast
  show ?thesis
  proof (cases "is_substring ''timestamp'' s")
    case True
    then have "check_timestamp L clk (PStr s) = Inl TypeError"
      by (simp add: check_timestamp_def py_contains_def py_getitem_def)
    with es show ?thesis by (simp add: PStr validate_payload_def)
  next
    case False
    then have "check_timestamp L clk (PStr s) = Inr []"
      by (simp add: check_timestamp_def py_contains_def)
    moreover have "check_replay (PStr s) (processed_requests V)
                     = (Inl AttributeError, processed_requests V)"
      by (simp add: check_replay_def py_get_def)
    ultimately show ?thesis using es by (simp add: PStr validate_payload_def)
  qed
next
  case (PDict d)
  with assms show ?thesis by simp
next
  case PNone
  then show ?thesis by (simp add: validate_payload_first_TypeError py_contains_def)
next
  case (PBool b)
  then show ?thesis by (simp add: validate_payload_first_TypeError py_contains_def)
next
  case (PInt i)
  then show ?thesis by (simp add: validate_payload_first_TypeError py_contains_def)
next
  case (PFloat q)
  then show ?thesis by (simp add: validate_payload_first_TypeError py_contains_def)
qed

theorem C7_non_mapping_raises_witness:
  "(\<forall>d. PList [PStr ''event''] \<noteq> PDict d)
   \<and> snd (validate_payload example_stdlib example_validator example_clock (PList [PStr ''event'']) ''sha256=abc'') = example_validator
   \<and> fst (validate_payload example_stdlib example_validator example_clock (PList [PStr ''event'']) ''sha256=abc'') = Inl AttributeError"
proof -
  have shape: "\<forall>d. PList [PStr ''event''] \<noteq> PDict d" by simp
  have raised: "fst (validate_payload example_stdlib example_validator example_clock (PList [PStr ''event'']) ''sha256=abc'') = Inl AttributeError"
    by code_simp
  from C7_non_mapping_raises [OF shape] shape raised show ?thesis by blast
qed

section \<open>Accumulation of errors\<close>





section \<open>Facts about the builder\<close>

lemma float_trunc_integer_part: "float_trunc q = spec_integer_part q"
  by (simp add: float_trunc_def spec_integer_part_def ceiling_def)

lemma round_half_even_two_decimals:
  "of_int (round_half_even (q * 100)) / 100 = spec_two_decimals q"
  by (simp add: round_half_even_def spec_two_decimals_def Let_def) linarith?

lemma float_round2_two_decimals: "float_round2 q = double_of_rat (spec_two_decimals q)"
  by (simp add: float_round2_def round_half_even_two_decimals)




lemma spec_integer_part_of_int: "spec_integer_part (of_int i) = i"
  by (simp add: spec_integer_part_def)

lemma py_int_number: "is_number x \<Longrightarrow> py_int L x = Inr (spec_integer_part (number_value x))"
  by (cases x)
    (simp_all add: is_number_def py_int_def number_value_def float_trunc_integer_part
      spec_integer_part_of_int)

lemma int_all_numbers:
  "list_all is_number xs \<Longrightarrow> int_all L xs = Inr (map spec_truncate xs)"
  by (induction xs) (simp_all add: py_int_number spec_truncate_def)

lemma py_ge_0_7_number:
  "is_number c \<Longrightarrow> py_ge_0_7 c = Inr (double_of_rat (70 / 100) \<le> number_value c)"
  by (cases c) (simp_all add: is_number_def py_ge_0_7_def number_value_def)

lemma py_round2_number: "is_number c \<Longrightarrow> py_round2 c = Inr (spec_round2 c)"
  by (cases c)
    (simp_all add: is_number_def py_round2_def spec_round2_def float_round2_two_decimals)

lemma get_or_0_number:
  "dict_get bd k = Some v \<Longrightarrow> get_or_0 bd k = v"
  by (simp add: get_or_0_def)

lemma compress_object_skipped:
  assumes "dict_get ob ''confidence'' = None"
  shows "compress_object L (PDict ob) = Inr None"
proof -
  have "double_of_rat (7 / 10) \<le> 0 = False"
    by code_simp
  with assms show ?thesis
    by (simp add: compress_object_def py_get_def py_ge_0_7_def)
qed

lemma compress_object_wf:
  assumes "wf_detection obj"
  shows "compress_object L obj = Inr (if spec_keep obj then Some (spec_compress obj) else None)"
proof -
  from assms obtain ob where obj: "obj = PDict ob"
    by (cases obj) (simp_all add: wf_detection_def)
  show ?thesis
  proof (cases "dict_get ob ''confidence''")
    case None
    then show ?thesis
      by (simp add: obj compress_object_skipped spec_keep_def spec_confident_def)
  next
    case (Some c)
    with assms obj have num: "is_number c"
      by (simp add: wf_detection_def)
    show ?thesis
    proof (cases "spec_confident ob")
      case False
      with Some num show ?thesis
        by (simp add: obj compress_object_def py_get_def py_ge_0_7_number spec_keep_def
            spec_confident_def)
    next
      case True
      with assms obj Some obtain t where t: "dict_get ob ''type'' = Some t"
        by (auto simp: wf_detection_def dict_contains_def)
      have ge: "py_ge_0_7 c = Inr True"
        using True Some num by (simp add: py_ge_0_7_number spec_confident_def)
      show ?thesis
      proof (cases "dict_get ob ''bounding_box''")
        case None
        with True Some t ge num show ?thesis
          by (simp add: obj compress_object_def py_get_def py_getitem_def py_contains_def
              dict_contains_def py_round2_number spec_keep_def spec_compress_def get_or_0_def)
      next
        case (Some b)
        with assms obj True \<open>dict_get ob ''confidence'' = Some c\<close> have wb: "wf_bbox b"
          by (simp add: wf_detection_def)
        show ?thesis
        proof (cases b)
          case (PDict bd)
          with wb have "list_all is_number [get_or_0 bd ''x'', get_or_0 bd ''y'',
                              get_or_0 bd ''width'', get_or_0 bd ''height'']"
            by (simp add: wf_bbox_def get_or_0_def split: option.splits)
          then have "int_all L [get_or_0 bd ''x'', get_or_0 bd ''y'',
                              get_or_0 bd ''width'', get_or_0 bd ''height'']
                     = Inr (map spec_truncate [get_or_0 bd ''x'', get_or_0 bd ''y'',
                              get_or_0 bd ''width'', get_or_0 bd ''height''])"
            by (rule int_all_numbers)
          with PDict Some True \<open>dict_get ob ''confidence'' = Some c\<close> t ge num show ?thesis
            by (simp add: obj compress_object_def py_get_def py_getitem_def py_contains_def
                dict_contains_def py_round2_number spec_keep_def spec_compress_def get_or_0_def
                spec_bbox_def)
        next
          case (PList xs)
          with wb have "int_all L xs = Inr (map spec_truncate xs)"
            by (simp add: wf_bbox_def int_all_numbers)
          with PList Some True \<open>dict_get ob ''confidence'' = Some c\<close> t ge num show ?thesis
            by (simp add: obj compress_object_def py_get_def py_getitem_def py_contains_def
                dict_contains_def py_round2_number spec_keep_def spec_compress_def get_or_0_def
                spec_bbox_def)
        qed (use wb in \<open>simp_all add: wf_bbox_def\<close>)
      qed
    qed
  qed
qed


lemma dict_get_filter:
  "dict_get (filter (\<lambda>kv. P (fst kv)) d) k = (if P k then dict_get d k else None)"
  by (induction d) (auto simp: dict_get_def)

lemma dict_get_dict_set:
  "dict_get (dict_set d k v) k' = (if k' = k then Some v else dict_get d k')"
  by (induction d) (auto simp: dict_get_def)



lemma create_payload_data:
  "create_payload L B env event_type data profile priority = Inr envelope \<Longrightarrow>
     \<exists>out. optimize_data_for_profile L data profile = Inr out
          \<and> dict_get envelope ''data'' = Some (PDict out)"
  by (auto simp: create_payload_def dict_get_def split: sum.splits)

lemma create_payload_returns:
  "optimize_data_for_profile L data profile = Inr out \<Longrightarrow>
     \<exists>envelope. create_payload L B env event_type data profile priority = Inr envelope
          \<and> dict_get envelope ''data'' = Some (PDict out)"
  by (simp add: create_payload_def dict_get_def)

lemma create_payload_raises:
  "optimize_data_for_profile L data profile = Inl e \<Longrightarrow>
     create_payload L B env event_type data profile priority = Inl e"
  by (simp add: create_payload_def)

lemma detection_details_kept:
  "dict_get (filter (\<lambda>kv. fst kv \<notin> set excluded_fields) data) ''detection_details''
     = dict_get data ''detection_details''"
  using dict_get_filter [of "\<lambda>k. k \<notin> set excluded_fields" data "''detection_details''"]
  by (simp add: excluded_fields_def)

lemma optimize_standard_details:
  assumes "dict_get data ''detection_details'' = Some details"
  shows "optimize_data_for_profile L data ''standard'' =
           (case compress_detection_details L details of
              Inl e \<Rightarrow> Inl e
            | Inr c \<Rightarrow> Inr (dict_set (filter (\<lambda>kv. fst kv \<notin> set excluded_fields) data)
                              ''detection_details'' (PDict c)))"
  using assms by (simp add: optimize_data_for_profile_def detection_details_kept)


lemma compress_detection_details_objects:
  assumes "dict_get dd ''objects'' = Some (PList objs)"
  shows "compress_detection_details L (PDict dd) =
           (case compress_objects L objs of
              Inl e \<Rightarrow> Inl e
            | Inr cs \<Rightarrow> Inr [(''objects'', PList cs)])"
  using assms
  by (simp add: compress_detection_details_def py_contains_def dict_contains_def
      py_getitem_def py_iter_def)

lemma compress_detection_details_no_objects:
  assumes "dict_get dd ''objects'' = None"
  shows "compress_detection_details L (PDict dd) = Inr []"
  using assms
  by (simp add: compress_detection_details_def py_contains_def dict_contains_def)

lemma compress_detection_details_shape:
  assumes "compress_detection_details L details = Inr c"
  shows "c = [] \<or> (\<exists>cs. c = [(''objects'', PList cs)])"
  using assms
  by (auto simp: compress_detection_details_def split: sum.splits bool.splits)



lemma compress_object_untyped:
  assumes "spec_confident ob" and "dict_get ob ''type'' = None"
  shows "compress_object L (PDict ob) = Inl KeyError"
proof -
  from assms(1) obtain c where c: "dict_get ob ''confidence'' = Some c" and num: "is_number c"
    and ge: "double_of_rat (70 / 100) \<le> number_value c"
    by (auto simp: spec_confident_def split: option.splits)
  from num ge have "py_ge_0_7 c = Inr True"
    by (simp add: py_ge_0_7_number)
  with c assms(2) show ?thesis
    by (simp add: compress_object_def py_get_def py_getitem_def)
qed

lemma compress_objects_untyped:
  assumes "list_all wf_detection pre" and "spec_confident ob" and "dict_get ob ''type'' = None"
  shows "compress_objects L (pre @ PDict ob # post) = Inl KeyError"
  using assms(1)
proof (induction pre)
  case Nil
  show ?case by (simp add: compress_object_untyped [OF assms(2,3)])
next
  case (Cons obj pre)
  then show ?case by (simp add: compress_object_wf)
qed

section \<open>The standard profile\<close>

text \<open>
  Claim C6, as stated: under the standard profile a bounding box given as a plain
  sequence is compressed into a sequence of four integers. It is compressed element by
  element, \<^verbatim>\<open>[int(x) for x in bbox]\<close>, whatever its length: for a detection of confidence
  0.9 whose bounding box is \<^verbatim>\<open>[1.5, 2.5, 3.5]\<close> the envelope's data has the \<^verbatim>\<open>bbox\<close>
  \<^verbatim>\<open>[1, 2, 3]\<close>, of three elements.
\<close>

theorem C6_sequence_length_counterexample:
  "payload_data
     (create_payload example_stdlib example_builder example_env ''incident_detected''
        short_box_data ''standard'' ''medium'')
   = Some (PDict
         [(''detection_details'', PDict
             [(''objects'', PList
                [PDict
                   [(''type'', PStr ''person''),
                    (''conf'', PFloat (double_of_rat (9 / 10))),
                    (''bbox'', PList [PInt 1, PInt 2, PInt 3])]])])])"
proof -
  have "optimize_data_for_profile example_stdlib short_box_data ''standard''
        = Inr [(''detection_details'', PDict
                 [(''objects'', PList
                    [PDict
                       [(''type'', PStr ''person''),
                        (''conf'', PFloat (double_of_rat (9 / 10))),
                        (''bbox'', PList [PInt 1, PInt 2, PInt 3])]])])]"
    by code_simp
  from create_payload_returns [OF this, of example_builder example_env "''incident_detected''"
      "''medium''"]
  obtain envelope where
    "create_payload example_stdlib example_builder example_env ''incident_detected''
       short_box_data ''standard'' ''medium'' = Inr envelope"
    "dict_get envelope ''data''
       = Some (PDict
           [(''detection_details'', PDict
               [(''objects'', PList
                  [PDict
                     [(''type'', PStr ''person''),
                      (''conf'', PFloat (double_of_rat (9 / 10))),
                      (''bbox'', PList [PInt 1, PInt 2, PInt 3])]])])])"
    by blast
  then show ?thesis
    by (simp add: payload_data_def)
qed



text \<open>
  Claim C9: under the standard profile, when \<^verbatim>\<open>detection_details\<close> is a mapping, its value
  in the output is a mapping with no key other than \<^verbatim>\<open>objects\<close>; when the input has no
  \<^verbatim>\<open>objects\<close> key, \<^verbatim>\<open>create_payload\<close> returns and that mapping is empty.
\<close>

theorem C9_only_objects_kept:
  assumes details: "dict_get data ''detection_details'' = Some (PDict dd)"
  shows "(\<forall>envelope. create_payload L B env event_type data ''standard'' priority = Inr envelope \<longrightarrow>
            (\<exists>out c. dict_get envelope ''data'' = Some (PDict out)
                \<and> dict_get out ''detection_details'' = Some (PDict c)
                \<and> set (map fst c) \<subseteq> {''objects''}
                \<and> (dict_get dd ''objects'' = None \<longrightarrow> c = [])))
         \<and> (dict_get dd ''objects'' = None \<longrightarrow>
              (\<exists>envelope out.
                  create_payload L B env event_type data ''standard'' priority = Inr envelope
                \<and> dict_get envelope ''data'' = Some (PDict out)
                \<and> dict_get out ''detection_details'' = Some (PDict [])))"
proof (intro conjI allI impI)
  fix envelope
  assume "create_payload L B env event_type data ''standard'' priority = Inr envelope"
  from create_payload_data [OF this] obtain out where
    opt: "optimize_data_for_profile L data ''standard'' = Inr out" and
    field: "dict_get envelope ''data'' = Some (PDict out)"
    by blast
  from opt obtain c where
    c: "compress_detection_details L (PDict dd) = Inr c" and
    out: "out = dict_set (filter (\<lambda>kv. fst kv \<notin> set excluded_fields) data)
                  ''detection_details'' (PDict c)"
    by (auto simp: optimize_standard_details [OF details] split: sum.splits)
  have shape: "set (map fst c) \<subseteq> {''objects''}"
    using compress_detection_details_shape [OF c] by auto
  have empty: "dict_get dd ''objects'' = None \<longrightarrow> c = []"
    using c by (auto simp: compress_detection_details_no_objects)
  have "dict_get out ''detection_details'' = Some (PDict c)"
    by (simp add: out dict_get_dict_set)
  with field shape empty
  show "\<exists>out c. dict_get envelope ''data'' = Some (PDict out)
                \<and> dict_get out ''detection_details'' = Some (PDict c)
                \<and> set (map fst c) \<subseteq> {''objects''}
                \<and> (dict_get dd ''objects'' = None \<longrightarrow> c = [])"
    by (intro exI conjI)
next
  assume "dict_get dd ''objects'' = None"
  then have "compress_detection_details L (PDict dd) = Inr []"
    by (rule compress_detection_details_no_objects)
  then have opt: "optimize_data_for_profile L data ''standard''
      = Inr (dict_set (filter (\<lambda>kv. fst kv \<notin> set excluded_fields) data)
               ''detection_details'' (PDict []))"
    by (simp add: optimize_standard_details [OF details])
  from create_payload_returns [OF opt] obtain envelope where
    "create_payload L B env event_type data ''standard'' priority = Inr envelope"
    "dict_get envelope ''data''
       = Some (PDict (dict_set (filter (\<lambda>kv. fst kv \<notin> set excluded_fields) data)
                        ''detection_details'' (PDict [])))"
    by blast
  then show "\<exists>envelope out.
                  create_payload L B env event_type data ''standard'' priority = Inr envelope
                \<and> dict_get envelope ''data'' = Some (PDict out)
                \<and> dict_get out ''detection_details'' = Some (PDict [])"
    by (auto simp: dict_get_dict_set)
qed

theorem C9_only_objects_kept_witness:
  "dict_get incident_data ''detection_details'' = Some (PDict incident_details)
   \<and> map fst incident_details = [''objects'', ''frame_quality'']
   \<and> (\<exists>envelope out c.
         create_payload example_stdlib example_builder example_env ''incident_detected''
           incident_data ''standard'' ''medium'' = Inr envelope
       \<and> dict_get envelope ''data'' = Some (PDict out)
       \<and> dict_get out ''detection_details'' = Some (PDict c)
       \<and> set (map fst c) \<subseteq> {''objects''})
   \<and> dict_get plain_details_data ''detection_details''
       = Some (PDict [(''frame_quality'', PStr ''good'')])
   \<and> dict_get [(''frame_quality'', PStr ''good'')] ''objects'' = None
   \<and> (\<exists>envelope out.
         create_payload example_stdlib example_builder example_env ''incident_detected''
           plain_details_data ''standard'' ''medium'' = Inr envelope
       \<and> dict_get envelope ''data'' = Some (PDict out)
       \<and> dict_get out ''detection_details'' = Some (PDict []))"
proof -
  have d1: "dict_get incident_data ''detection_details'' = Some (PDict incident_details)"
    by (simp add: incident_data_def dict_get_def)
  have k1: "map fst incident_details = [''objects'', ''frame_quality'']"
    by (simp add: incident_details_def)
  have "case optimize_data_for_profile example_stdlib incident_data ''standard'' of
          Inl e \<Rightarrow> False | Inr out \<Rightarrow> True"
    by code_simp
  then obtain out0 where
    "optimize_data_for_profile example_stdlib incident_data ''standard'' = Inr out0"
    by (cases "optimize_data_for_profile example_stdlib incident_data ''standard''") simp_all
  from create_payload_returns [OF this] obtain envelope where
    created: "create_payload example_stdlib example_builder example_env ''incident_detected''
           incident_data ''standard'' ''medium'' = Inr envelope"
    by blast
  from C9_only_objects_kept [OF d1, of example_stdlib example_builder example_env "''incident_detected''"
      "''medium''"] created
  have e1: "\<exists>envelope out c.
         create_payload example_stdlib example_builder example_env ''incident_detected''
           incident_data ''standard'' ''medium'' = Inr envelope
       \<and> dict_get envelope ''data'' = Some (PDict out)
       \<and> dict_get out ''detection_details'' = Some (PDict c)
       \<and> set (map fst c) \<subseteq> {''objects''}"
    by blast
  have d2: "dict_get plain_details_data ''detection_details''
       = Some (PDict [(''frame_quality'', PStr ''good'')])"
    by (simp add: plain_details_data_def dict_get_def)
  have n2: "dict_get [(''frame_quality'', PStr ''good'')] ''objects'' = None"
    by (simp add: dict_get_def)
  from C9_only_objects_kept [OF d2, of example_stdlib example_builder example_env "''incident_detected''"
      "''medium''"] n2
  have e2: "\<exists>envelope out.
         create_payload example_stdlib example_builder example_env ''incident_detected''
           plain_details_data ''standard'' ''medium'' = Inr envelope
       \<and> dict_get envelope ''data'' = Some (PDict out)
       \<and> dict_get out ''detection_details'' = Some (PDict [])"
    by blast
  show ?thesis
    by (rule conjI [OF d1 conjI [OF k1 conjI [OF e1 conjI [OF d2 conjI [OF n2 e2]]]]])
qed

text \<open>
  Claim C10: \<^verbatim>\<open>create_payload\<close> is partial. Under the standard profile, a detection object
  of confidence at least 0.7 without a \<^verbatim>\<open>type\<close> key, after any number of detection objects
  that are in order, ends the call in \<^verbatim>\<open>KeyError\<close>.
\<close>

theorem C10_missing_type_raises:
  assumes "dict_get data ''detection_details'' = Some (PDict dd)"
    and "dict_get dd ''objects'' = Some (PList (pre @ PDict ob # post))"
    and "list_all wf_detection pre"
    and "spec_confident ob"
    and "dict_get ob ''type'' = None"
  shows "create_payload L B env event_type data ''standard'' priority = Inl KeyError"
proof -
  have "compress_objects L (pre @ PDict ob # post) = Inl KeyError"
    by (rule compress_objects_untyped [OF assms(3-5)])
  then have "compress_detection_details L (PDict dd) = Inl KeyError"
    by (simp add: compress_detection_details_objects [OF assms(2)])
  then have "optimize_data_for_profile L data ''standard'' = Inl KeyError"
    by (simp add: optimize_standard_details [OF assms(1)])
  then show ?thesis by (rule create_payload_raises)
qed

theorem C10_missing_type_raises_witness:
  "dict_get untyped_data ''detection_details''
     = Some (PDict [(''objects'', PList [PDict [(''confidence'', PFloat (double_of_rat (94 / 100)))]])])
   \<and> dict_get [(''objects'', PList [PDict [(''confidence'', PFloat (double_of_rat (94 / 100)))]])]
        ''objects''
     = Some (PList ([] @ PDict [(''confidence'', PFloat (double_of_rat (94 / 100)))] # []))
   \<and> list_all wf_detection []
   \<and> spec_confident [(''confidence'', PFloat (double_of_rat (94 / 100)))]
   \<and> dict_get [(''confidence'', PFloat (double_of_rat (94 / 100)))] ''type'' = None
   \<and> create_payload example_stdlib example_builder example_env ''incident_detected''
        untyped_data ''standard'' ''medium'' = Inl KeyError"
proof -
  have h1: "dict_get untyped_data ''detection_details''
     = Some (PDict [(''objects'', PList [PDict [(''confidence'', PFloat (double_of_rat (94 / 100)))]])])"
    by (simp add: untyped_data_def dict_get_def)
  have h2: "dict_get [(''objects'', PList [PDict [(''confidence'', PFloat (double_of_rat (94 / 100)))]])]
        ''objects''
     = Some (PList ([] @ PDict [(''confidence'', PFloat (double_of_rat (94 / 100)))] # []))"
    by (simp add: dict_get_def)
  have h3: "list_all wf_detection []" by simp
  have h4: "spec_confident [(''confidence'', PFloat (double_of_rat (94 / 100)))]"
    by code_simp
  have h5: "dict_get [(''confidence'', PFloat (double_of_rat (94 / 100)))] ''type'' = None"
    by (simp add: dict_get_def)
  from h1 h2 h3 h4 h5 C10_missing_type_raises [OF h1 h2 h3 h4 h5] show ?thesis by (intro conjI)
qed

end
